theory Spec2Isabelle
  imports Complex_Main "HOL-Library.Log_Nat"
begin

section \<open>Python values\<close>

text \<open>
  The decoded body of the login response is an arbitrary JSON value, and the source stores
  whatever it finds under \<open>access_token\<close> without checking its type. So the values the
  client handles are modelled as Python values. \<open>PNone\<close> is Python's \<open>None\<close> (and JSON
  \<open>null\<close>). A dict is an association list read with \<open>map_of\<close>. A \<open>str\<close> is held as
  the bytes of its UTF-8 form, so a character outside ASCII shows as bytes from 128 up. A
  float is held as the real number it stands for; the result of a float operation is
  rounded to a double by \<open>fl64\<close> below. The non-finite floats are not modelled.
\<close>

datatype pyval =
    PNone
  | PBool bool
  | PInt int
  | PFloat real
  | PStr string
  | PList "pyval list"
  | PDict "(string \<times> pyval) list"

text \<open>Python's truth value, as tested by \<open>not self._token\<close>.\<close>

fun py_truthy :: "pyval \<Rightarrow> bool" where
  "py_truthy PNone = False"
| "py_truthy (PBool b) = b"
| "py_truthy (PInt i) = (i \<noteq> 0)"
| "py_truthy (PFloat r) = (r \<noteq> 0)"
| "py_truthy (PStr s) = (s \<noteq> [])"
| "py_truthy (PList xs) = (xs \<noteq> [])"
| "py_truthy (PDict kvs) = (kvs \<noteq> [])"

text \<open>Whether a value is a dict: only a dict has the method \<open>get\<close>.\<close>

fun is_dict :: "pyval \<Rightarrow> bool" where
  "is_dict (PDict kvs) = True"
| "is_dict v = False"

text \<open>\<open>d.get(k, default)\<close>; \<open>d.get(k)\<close> is \<open>dict_get d k PNone\<close>.\<close>

definition dict_get :: "(string \<times> pyval) list \<Rightarrow> string \<Rightarrow> pyval \<Rightarrow> pyval" where
  "dict_get d k dflt = (case map_of d k of None \<Rightarrow> dflt | Some v \<Rightarrow> v)"

text \<open>
  The exceptions that leave \<open>_fetch_new_token\<close> and \<open>get_authorized_client\<close>; both
  handlers of \<open>_fetch_new_token\<close> log and re-raise. \<open>HTTPStatusError\<close> carries the status
  code and the body of its response.
\<close>

datatype error =
    HTTPStatusError int string
  | RequestError
  | JSONDecodeError
  | AttributeError
  | ValueError string
  | TypeError
  | OverflowError
  | UnicodeEncodeError

subsection \<open>Double precision\<close>

text \<open>
  Rounding to the nearest double, ties to the even significand: \<open>float_exponent x\<close> is
  the binary exponent of \<open>x\<close> (not below the one of the subnormals), a double with this
  exponent is a multiple of \<open>2 powi (float_exponent x - 52)\<close>, and \<open>fl64 x\<close> is the
  nearest such multiple. The exponent is not bounded above here: a result of magnitude
  \<open>2 ^ 1024\<close> or more stands for one that does not fit a double.
\<close>

definition round_half_even :: "real \<Rightarrow> int" where
  "round_half_even x =
     (let f = \<lfloor>x\<rfloor>; d = x - of_int f
      in if d < 1 / 2 then f else if 1 / 2 < d then f + 1 else if even f then f else f + 1)"

definition float_exponent :: "real \<Rightarrow> int" where
  "float_exponent x =
     (if 1 \<le> \<bar>x\<bar> then bitlen \<lfloor>\<bar>x\<bar>\<rfloor> - 1
      else max (- 1022) (- bitlen (\<lceil>1 / \<bar>x\<bar>\<rceil> - 1)))"

definition fl64 :: "real \<Rightarrow> real" where
  "fl64 x =
     (if x = 0 then 0
      else of_int (round_half_even (x / 2 powi (float_exponent x - 52)))
             * 2 powi (float_exponent x - 52))"

definition float_overflow_bound :: real where
  "float_overflow_bound = 2 ^ 1024"

text \<open>
  The conversion of an \<open>int\<close> operand to a float: correctly rounded, and an
  \<open>OverflowError\<close> when the rounded value does not fit a double.
\<close>

definition int_to_float :: "int \<Rightarrow> error + real" where
  "int_to_float i =
     (if float_overflow_bound \<le> \<bar>fl64 (of_int i)\<bar> then Inl OverflowError
      else Inr (fl64 (of_int i)))"

text \<open>
  \<open>time.time() + expires_in\<close>: for an \<open>int\<close> (a bool counts as 0 or 1) the operand is
  converted, which may raise \<open>OverflowError\<close>, and the sum of the two floats is rounded;
  every value that is not a number raises \<open>TypeError\<close>. For a clock below \<open>2 ^ 970\<close>
  the sum of the clock and a double fits a double.
\<close>

fun py_add_time :: "real \<Rightarrow> pyval \<Rightarrow> error + real" where
  "py_add_time t (PInt i) =
     (case int_to_float i of Inl e \<Rightarrow> Inl e | Inr r \<Rightarrow> Inr (fl64 (t + r)))"
| "py_add_time t (PFloat r) = Inr (fl64 (t + r))"
| "py_add_time t (PBool b) = Inr (fl64 (t + (if b then 1 else 0)))"
| "py_add_time t v = Inl TypeError"

text \<open>
  An f-string field \<open>{v}\<close>: a \<open>str\<close> is inserted as it is; for any other value Python
  inserts \<open>str(v)\<close>, which is taken as the parameter \<open>str_of\<close>.
\<close>

definition py_format :: "(pyval \<Rightarrow> string) \<Rightarrow> pyval \<Rightarrow> string" where
  "py_format str_of v = (case v of PStr s \<Rightarrow> s | _ \<Rightarrow> str_of v)"

text \<open>Whether \<open>s.encode("ascii")\<close> succeeds: every character is below 128.\<close>

definition is_ascii :: "string \<Rightarrow> bool" where
  "is_ascii s = list_all (\<lambda>c. of_char c < (128::nat)) s"

section \<open>Runtime configuration (runtime_config.py)\<close>

text \<open>
  \<open>app.core.config.settings\<close> is not part of the sources at hand; the four attributes the
  code reads are the fields of a record that every function takes as a parameter.
\<close>

record settings =
  EXTERNAL_API_BASE_URL :: string
  EXTERNAL_API_USERNAME :: string
  EXTERNAL_API_PASSWORD :: string
  EXTERNAL_API_LOGIN_PATH :: string

text \<open>
  The module-level dict \<open>_runtime_config\<close>: a key is mapped to \<open>None\<close> (use the setting)
  or to the override. The module starts with every key at \<open>None\<close>.
\<close>

type_synonym runtime_config = "string \<Rightarrow> string option"

definition runtime_config_init :: runtime_config where
  "runtime_config_init = (\<lambda>k. None)"

definition get_external_api_base_url :: "settings \<Rightarrow> runtime_config \<Rightarrow> string" where
  "get_external_api_base_url st rc =
     (case rc ''external_api_base_url'' of
        Some v \<Rightarrow> v
      | None \<Rightarrow> EXTERNAL_API_BASE_URL st)"

definition set_external_api_base_url :: "string \<Rightarrow> runtime_config \<Rightarrow> runtime_config" where
  "set_external_api_base_url u rc = rc(''external_api_base_url'' := Some u)"

definition reset_external_api_base_url :: "runtime_config \<Rightarrow> runtime_config" where
  "reset_external_api_base_url rc = rc(''external_api_base_url'' := None)"

definition get_external_api_username :: "settings \<Rightarrow> runtime_config \<Rightarrow> string" where
  "get_external_api_username st rc =
     (case rc ''external_api_username'' of
        Some v \<Rightarrow> v
      | None \<Rightarrow> EXTERNAL_API_USERNAME st)"

definition set_external_api_username :: "string \<Rightarrow> runtime_config \<Rightarrow> runtime_config" where
  "set_external_api_username u rc = rc(''external_api_username'' := Some u)"

definition get_external_api_password :: "settings \<Rightarrow> runtime_config \<Rightarrow> string" where
  "get_external_api_password st rc =
     (case rc ''external_api_password'' of
        Some v \<Rightarrow> v
      | None \<Rightarrow> EXTERNAL_API_PASSWORD st)"

definition set_external_api_password :: "string \<Rightarrow> runtime_config \<Rightarrow> runtime_config" where
  "set_external_api_password p rc = rc(''external_api_password'' := Some p)"

section \<open>The authentication client (auth_client.py)\<close>

text \<open>
  The fields of \<open>AuthClient\<close>, without their leading underscore (an Isabelle name cannot
  start with one). \<open>AuthClient_init\<close> is \<open>__init__\<close>.
\<close>

record AuthClient =
  token :: pyval
  token_expires_at :: real
  last_base_url :: "string option"
  last_username :: "string option"
  last_password :: "string option"

definition AuthClient_init :: AuthClient where
  "AuthClient_init =
     \<lparr>token = PNone, token_expires_at = 0,
      last_base_url = None, last_username = None, last_password = None\<rparr>"

text \<open>The login request that \<open>client.post\<close> sends, on a client with a 30 second timeout.\<close>

record login_request =
  req_url :: string
  req_user_name :: string
  req_password :: string
  req_content_type :: string
  req_timeout :: real

text \<open>
  What comes back from \<open>client.post\<close>: either it raises (a transport failure,
  \<open>httpx.RequestError\<close>), or there is a response with its status code, its body text and
  what \<open>response.json()\<close> gives (\<open>None\<close> when the body does not decode).
\<close>

datatype http_outcome =
    Transport_Failure
  | Response int string "pyval option"

text \<open>\<open>raise_for_status\<close> of httpx raises \<open>HTTPStatusError\<close> unless the status is 2xx.\<close>

definition is_success :: "int \<Rightarrow> bool" where
  "is_success status = (200 \<le> status \<and> status \<le> 299)"

text \<open>
  The state the functions work on: the module's \<open>_runtime_config\<close>, the global
  \<open>auth_client\<close> instance, and the login requests sent so far (oldest first), so that
  the number of login exchanges can be counted.
\<close>

record world =
  cfg :: runtime_config
  client :: AuthClient
  sent :: "login_request list"

text \<open>
  \<open>_is_token_valid\<close>. The difference is taken exactly: for an expiry that is a double
  between 120 and \<open>2 ^ 55\<close>, as every expiry computed from a real clock is, the
  difference is a double again and no rounding takes place.
\<close>

definition is_token_valid :: "real \<Rightarrow> AuthClient \<Rightarrow> bool" where
  "is_token_valid now c =
     (if \<not> py_truthy (token c) then False
      else now < token_expires_at c - 60)"

text \<open>
  \<open>_fetch_new_token\<close>. \<open>api\<close> is the external API (the outcome of each request) and
  \<open>now\<close> the value of \<open>time.time()\<close> when the response is handled. An exception leaves
  the assignments made before it in place, so the world is returned in both cases.
  \<open>Transport_Failure\<close> stands for every exception that \<open>client.post\<close> itself raises.
\<close>

definition fetch_new_token ::
  "settings \<Rightarrow> (login_request \<Rightarrow> http_outcome) \<Rightarrow> real \<Rightarrow> world \<Rightarrow> (error + unit) \<times> world" where
  "fetch_new_token st api now w =
     (let base_url = get_external_api_base_url st (cfg w);
          username = get_external_api_username st (cfg w);
          password = get_external_api_password st (cfg w);
          login_url = base_url @ EXTERNAL_API_LOGIN_PATH st;
          req = \<lparr>req_url = login_url, req_user_name = username, req_password = password,
                 req_content_type = ''application/json'', req_timeout = 30\<rparr>;
          w1 = w\<lparr>sent := sent w @ [req]\<rparr>
      in case api req of
           Transport_Failure \<Rightarrow> (Inl RequestError, w1)
         | Response status body decoded \<Rightarrow>
             if \<not> is_success status then (Inl (HTTPStatusError status body), w1)
             else (case decoded of
                 None \<Rightarrow> (Inl JSONDecodeError, w1)
               | Some (PDict token_data) \<Rightarrow>
                   (let w2 = w1\<lparr>client := (client w1)
                                 \<lparr>token := dict_get token_data ''access_token'' PNone\<rparr>\<rparr>
                    in if \<not> py_truthy (token (client w2))
                       then (Inl (ValueError ''No access_token in response''), w2)
                       else (case py_add_time now
                                    (dict_get token_data ''expires_in'' (PInt 3600)) of
                           Inl err \<Rightarrow> (Inl err, w2)
                         | Inr e \<Rightarrow>
                             (Inr (), w2\<lparr>client := (client w2)
                                \<lparr>token_expires_at := e,
                                 last_base_url := Some base_url,
                                 last_username := Some username,
                                 last_password := Some password\<rparr>\<rparr>)))
               | Some _ \<Rightarrow> (Inl AttributeError, w1)))"

text \<open>
  \<open>get_access_token\<close>. \<open>now\<close> is the clock at the validity check, \<open>now'\<close> the clock
  when the login response is handled.
\<close>

definition credentials_changed :: "settings \<Rightarrow> world \<Rightarrow> bool" where
  "credentials_changed st w =
     ((last_base_url (client w) \<noteq> None
         \<and> last_base_url (client w) \<noteq> Some (get_external_api_base_url st (cfg w)))
      \<or> (last_username (client w) \<noteq> None
         \<and> last_username (client w) \<noteq> Some (get_external_api_username st (cfg w)))
      \<or> (last_password (client w) \<noteq> None
         \<and> last_password (client w) \<noteq> Some (get_external_api_password st (cfg w))))"

definition invalidate :: "settings \<Rightarrow> world \<Rightarrow> world" where
  "invalidate st w =
     (if credentials_changed st w
      then w\<lparr>client := (client w)\<lparr>token := PNone, token_expires_at := 0\<rparr>\<rparr>
      else w)"

definition get_access_token ::
  "settings \<Rightarrow> (login_request \<Rightarrow> http_outcome) \<Rightarrow> real \<Rightarrow> real \<Rightarrow> world
     \<Rightarrow> (error + pyval) \<times> world" where
  "get_access_token st api now now' w =
     (let w1 = invalidate st w
      in if is_token_valid now (client w1) then (Inr (token (client w1)), w1)
         else (case fetch_new_token st api now' w1 of
             (Inl e, w2) \<Rightarrow> (Inl e, w2)
           | (Inr u, w2) \<Rightarrow> (Inr (token (client w2)), w2)))"

text \<open>
  The client that \<open>get_authorized_client\<close> builds: its headers and its timeout.
  \<open>httpx.AsyncClient(headers=...)\<close> encodes each header value as ASCII when it is built and
  raises \<open>UnicodeEncodeError\<close> when the value has a character outside ASCII.
\<close>

record http_client =
  headers :: "(string \<times> string) list"
  timeout :: real

definition get_authorized_client ::
  "settings \<Rightarrow> (login_request \<Rightarrow> http_outcome) \<Rightarrow> (pyval \<Rightarrow> string) \<Rightarrow> real \<Rightarrow> real \<Rightarrow> world
     \<Rightarrow> (error + http_client) \<times> world" where
  "get_authorized_client st api str_of now now' w =
     (case get_access_token st api now now' w of
        (Inl e, w') \<Rightarrow> (Inl e, w')
      | (Inr tok, w') \<Rightarrow>
          (let authorization = ''Bearer '' @ py_format str_of tok
           in if \<not> is_ascii authorization then (Inl UnicodeEncodeError, w')
              else (Inr \<lparr>headers = [(''Authorization'', authorization)], timeout = 30\<rparr>,
                    w')))"

section \<open>Notions used in the statements\<close>

text \<open>The login request that a given configuration leads to (the one built in
  \<open>_fetch_new_token\<close>), and the state of a freshly loaded process.\<close>

definition login_request_of :: "settings \<Rightarrow> runtime_config \<Rightarrow> login_request" where
  "login_request_of st rc =
     \<lparr>req_url = get_external_api_base_url st rc @ EXTERNAL_API_LOGIN_PATH st,
      req_user_name = get_external_api_username st rc,
      req_password = get_external_api_password st rc,
      req_content_type = ''application/json'', req_timeout = 30\<rparr>"

definition world_init :: world where
  "world_init = \<lparr>cfg = runtime_config_init, client = AuthClient_init, sent = []\<rparr>"

text \<open>A concrete environment for the examples: settings, and an external API that answers
  every request with the same outcome.\<close>

definition ex_settings :: settings where
  "ex_settings =
     \<lparr>EXTERNAL_API_BASE_URL = ''http://api'', EXTERNAL_API_USERNAME = ''admin'',
      EXTERNAL_API_PASSWORD = ''secret'', EXTERNAL_API_LOGIN_PATH = ''/login''\<rparr>"

definition api_const :: "http_outcome \<Rightarrow> login_request \<Rightarrow> http_outcome" where
  "api_const outcome req = outcome"

definition ok_body :: "(string \<times> pyval) list \<Rightarrow> http_outcome" where
  "ok_body d = Response 200 [] (Some (PDict d))"

text \<open>A client holding token \<open>old\<close>, obtained with the settings' credentials, expiring
  at the given time.\<close>

definition ex_world :: "real \<Rightarrow> world" where
  "ex_world expires =
     \<lparr>cfg = runtime_config_init,
      client = \<lparr>token = PStr ''old'', token_expires_at = expires,
                last_base_url = Some ''http://api'', last_username = Some ''admin'',
                last_password = Some ''secret''\<rparr>,
      sent = []\<rparr>"

text \<open>The state after a first login at time 1000 with the settings' credentials that was
  answered with token \<open>tok\<close> and \<open>expires_in = 3600\<close>.\<close>

definition ex_cached :: world where
  "ex_cached =
     \<lparr>cfg = runtime_config_init,
      client = \<lparr>token = PStr ''tok'', token_expires_at = 4600,
                last_base_url = Some ''http://api'', last_username = Some ''admin'',
                last_password = Some ''secret''\<rparr>,
      sent = [\<lparr>req_url = ''http://api/login'', req_user_name = ''admin'',
               req_password = ''secret'', req_content_type = ''application/json'',
               req_timeout = 30\<rparr>]\<rparr>"

text \<open>The token \<open>t\<close>, \<open>o\<close> with diaeresis, \<open>k\<close>, in UTF-8.\<close>

definition non_ascii_token :: string where
  "non_ascii_token = [CHR ''t'', CHR 0xC3, CHR 0xB6, CHR ''k'']"

section \<open>Callers that run concurrently\<close>

text \<open>
  \<open>get_access_token\<close> is a coroutine: it runs without interruption until it waits for the
  network at \<open>await client.post(...)\<close>, and other callers run while it waits. Before that
  point are the reading of the configuration, the invalidation, the validity check and the
  sending of the request; after it, the handling of the response with the credentials
  read before, and the return. \<open>handle_response\<close> is that second half of
  \<open>_fetch_new_token\<close>.
\<close>

definition handle_response ::
  "http_outcome \<Rightarrow> real \<Rightarrow> string \<Rightarrow> string \<Rightarrow> string \<Rightarrow> world \<Rightarrow> (error + unit) \<times> world" where
  "handle_response outcome now base_url username password w =
     (case outcome of
        Transport_Failure \<Rightarrow> (Inl RequestError, w)
      | Response status body decoded \<Rightarrow>
          if \<not> is_success status then (Inl (HTTPStatusError status body), w)
          else (case decoded of
              None \<Rightarrow> (Inl JSONDecodeError, w)
            | Some (PDict token_data) \<Rightarrow>
                (let w2 = w\<lparr>client := (client w)
                              \<lparr>token := dict_get token_data ''access_token'' PNone\<rparr>\<rparr>
                 in if \<not> py_truthy (token (client w2))
                    then (Inl (ValueError ''No access_token in response''), w2)
                    else (case py_add_time now
                                 (dict_get token_data ''expires_in'' (PInt 3600)) of
                        Inl err \<Rightarrow> (Inl err, w2)
                      | Inr e \<Rightarrow>
                          (Inr (), w2\<lparr>client := (client w2)
                             \<lparr>token_expires_at := e,
                              last_base_url := Some base_url,
                              last_username := Some username,
                              last_password := Some password\<rparr>\<rparr>)))
            | Some _ \<Rightarrow> (Inl AttributeError, w)))"

text \<open>
  A caller has not started, or waits for the answer to its login request (holding the
  credentials it read), or has finished with a result. An event \<open>(i, now)\<close> lets caller
  \<open>i\<close> run at clock \<open>now\<close> up to its next wait or its end. \<open>answers i\<close> is the outcome of
  the login request of caller \<open>i\<close>. The configuration is not written while callers run.
\<close>

datatype caller = Idle | Waiting string string string | Finished "error + pyval"

definition caller_step ::
  "settings \<Rightarrow> (nat \<Rightarrow> http_outcome) \<Rightarrow> (nat \<Rightarrow> caller) \<times> world \<Rightarrow> nat \<times> real
     \<Rightarrow> (nat \<Rightarrow> caller) \<times> world" where
  "caller_step st answers s ev =
     (let cs = fst s; w = snd s; i = fst ev; now = snd ev
      in case cs i of
           Idle \<Rightarrow>
             (let w1 = invalidate st w
              in if is_token_valid now (client w1)
                 then (cs(i := Finished (Inr (token (client w1)))), w1)
                 else (cs(i := Waiting (get_external_api_base_url st (cfg w1))
                                  (get_external_api_username st (cfg w1))
                                  (get_external_api_password st (cfg w1))),
                       w1\<lparr>sent := sent w1 @ [login_request_of st (cfg w1)]\<rparr>))
         | Waiting base_url username password \<Rightarrow>
             (case handle_response (answers i) now base_url username password w of
                (Inl e, w2) \<Rightarrow> (cs(i := Finished (Inl e)), w2)
              | (Inr u, w2) \<Rightarrow> (cs(i := Finished (Inr (token (client w2)))), w2))
         | Finished r \<Rightarrow> (cs, w))"

definition run_callers ::
  "settings \<Rightarrow> (nat \<Rightarrow> http_outcome) \<Rightarrow> (nat \<times> real) list \<Rightarrow> (nat \<Rightarrow> caller) \<times> world
     \<Rightarrow> (nat \<Rightarrow> caller) \<times> world" where
  "run_callers st answers schedule s = foldl (caller_step st answers) s schedule"




section \<open>The configuration store\<close>

text \<open>
  C7. After a setter, the getter of the same key returns the value set; the getters of the
  other two keys return what they returned before; and with no override (the key at
  \<open>None\<close>, as when the module is loaded) a getter returns the setting.
\<close>

theorem config_store_contract:
  "get_external_api_base_url st (set_external_api_base_url v rc) = v
   \<and> get_external_api_username st (set_external_api_username v rc) = v
   \<and> get_external_api_password st (set_external_api_password v rc) = v
   \<and> get_external_api_username st (set_external_api_base_url v rc)
       = get_external_api_username st rc
   \<and> get_external_api_password st (set_external_api_base_url v rc)
       = get_external_api_password st rc
   \<and> get_external_api_base_url st (set_external_api_username v rc)
       = get_external_api_base_url st rc
   \<and> get_external_api_password st (set_external_api_username v rc)
       = get_external_api_password st rc
   \<and> get_external_api_base_url st (set_external_api_password v rc)
       = get_external_api_base_url st rc
   \<and> get_external_api_username st (set_external_api_password v rc)
       = get_external_api_username st rc
   \<and> get_external_api_base_url st (rc(''external_api_base_url'' := None))
       = EXTERNAL_API_BASE_URL st
   \<and> get_external_api_username st (rc(''external_api_username'' := None))
       = EXTERNAL_API_USERNAME st
   \<and> get_external_api_password st (rc(''external_api_password'' := None))
       = EXTERNAL_API_PASSWORD st
   \<and> get_external_api_base_url st runtime_config_init = EXTERNAL_API_BASE_URL st
   \<and> get_external_api_username st runtime_config_init = EXTERNAL_API_USERNAME st
   \<and> get_external_api_password st runtime_config_init = EXTERNAL_API_PASSWORD st"
  by (simp add: get_external_api_base_url_def get_external_api_username_def
      get_external_api_password_def set_external_api_base_url_def
      set_external_api_username_def set_external_api_password_def runtime_config_init_def)

section \<open>Rounding to a double\<close>

lemma round_half_even_int: "round_half_even (of_int n) = n"
  by (simp add: round_half_even_def)

lemma round_half_even_error: "\<bar>of_int (round_half_even y) - y\<bar> \<le> 1 / 2"
proof -
  have "of_int \<lfloor>y\<rfloor> \<le> y" and "y < of_int \<lfloor>y\<rfloor> + 1"
    by linarith+
  then show ?thesis
    by (auto simp: round_half_even_def Let_def)
qed

lemma round_half_even_ge_floor: "\<lfloor>y\<rfloor> \<le> round_half_even y"
  by (simp add: round_half_even_def Let_def)

lemma round_half_even_le_ceiling: "round_half_even y \<le> \<lceil>y\<rceil>"
proof -
  have "\<lceil>y\<rceil> = \<lfloor>y\<rfloor> + 1" if "0 < y - of_int \<lfloor>y\<rfloor>"
    using that by (simp add: ceiling_altdef)
  then show ?thesis
    by (auto simp: round_half_even_def Let_def intro: order_trans [OF _ floor_le_ceiling])
qed

lemma float_exponent_bounds:
  assumes "1 \<le> \<bar>x\<bar>" and "\<bar>x\<bar> < 2 ^ 53"
  shows "0 \<le> float_exponent x" and "float_exponent x \<le> 52"
proof -
  have pos: "0 < \<lfloor>\<bar>x\<bar>\<rfloor>"
    using assms(1) by linarith
  have "\<lfloor>\<bar>x\<bar>\<rfloor> < 2 ^ 53"
    using assms(2) by (simp add: floor_less_iff)
  then have "bitlen \<lfloor>\<bar>x\<bar>\<rfloor> \<le> 53"
    by (simp add: bitlen_le_iff_power)
  moreover have "1 \<le> bitlen \<lfloor>\<bar>x\<bar>\<rfloor>"
    using pos by (simp add: bitlen_ge_iff_power)
  ultimately show "0 \<le> float_exponent x" and "float_exponent x \<le> 52"
    using assms(1) by (simp_all add: float_exponent_def)
qed

text \<open>Up to \<open>2 ^ 53\<close> the doubles are at most 1 apart, so rounding moves a value by at
  most a half.\<close>

lemma fl64_error:
  assumes "1 \<le> \<bar>x\<bar>" and "\<bar>x\<bar> < 2 ^ 53"
  shows "\<bar>fl64 x - x\<bar> \<le> 1 / 2"
proof -
  define u :: real where "u = 2 powi (float_exponent x - 52)"
  have "float_exponent x - 52 \<le> 0"
    using float_exponent_bounds [OF assms] by simp
  then have u: "0 < u" "u \<le> 1"
    by (simp_all add: u_def power_int_def inverse_eq_divide power_le_one divide_le_eq_1)
  have "fl64 x - x = (of_int (round_half_even (x / u)) - x / u) * u"
    using assms(1) u(1) by (auto simp: fl64_def u_def algebra_simps)
  then have "\<bar>fl64 x - x\<bar> = \<bar>of_int (round_half_even (x / u)) - x / u\<bar> * u"
    using u(1) by (simp add: abs_mult)
  also have "\<dots> \<le> 1 / 2 * 1"
    using round_half_even_error [of "x / u"] u by (intro mult_mono) simp_all
  finally show ?thesis
    by simp
qed

text \<open>Every integer of magnitude below \<open>2 ^ 53\<close> is a double.\<close>

lemma fl64_of_int:
  assumes "\<bar>n\<bar> < 2 ^ 53"
  shows "fl64 (of_int n) = of_int n"
proof (cases "n = 0")
  case True
  then show ?thesis
    by (simp add: fl64_def)
next
  case False
  then have "1 \<le> \<bar>n\<bar>"
    by linarith
  then have one: "1 \<le> \<bar>real_of_int n\<bar>"
    by (metis of_int_1_le_iff of_int_abs)
  have "\<bar>real_of_int n\<bar> < 2 ^ 53"
    using assms by (metis of_int_abs of_int_less_numeral_power_cancel_iff)
  from float_exponent_bounds [OF one this]
  obtain k :: nat where k: "float_exponent (of_int n) - 52 = - int k"
    by (metis add.inverse_inverse diff_le_0_iff_le nat_0_le neg_0_le_iff_le)
  have "real_of_int n / 2 powi (- int k) = of_int (n * 2 ^ k)"
    by (simp add: power_int_minus field_simps)
  then have "round_half_even (real_of_int n / 2 powi (- int k)) = n * 2 ^ k"
    by (simp only: round_half_even_int)
  then show ?thesis
    using False by (simp add: fl64_def k power_int_minus field_simps)
qed

text \<open>A value of magnitude \<open>2 ^ n\<close> or more is rounded to one of magnitude \<open>2 ^ n\<close> or
  more.\<close>

lemma fl64_magnitude:
  assumes "2 ^ n \<le> \<bar>x\<bar>"
  shows "2 ^ n \<le> \<bar>fl64 x\<bar>"
proof -
  have one: "1 \<le> \<bar>x\<bar>"
    using assms by (rule order_trans [rotated]) simp
  define e where "e = float_exponent x"
  define u :: real where "u = 2 powi (e - 52)"
  have u: "0 < u"
    by (simp add: u_def)
  have pos: "0 < \<lfloor>\<bar>x\<bar>\<rfloor>"
    using one by linarith
  have e: "e = bitlen \<lfloor>\<bar>x\<bar>\<rfloor> - 1"
    using one by (simp add: e_def float_exponent_def)
  have "2 ^ n \<le> \<lfloor>\<bar>x\<bar>\<rfloor>"
    using assms by (simp add: le_floor_iff)
  then have "2 ^ (nat (int (Suc n)) - 1) \<le> \<lfloor>\<bar>x\<bar>\<rfloor>"
    by (simp only: nat_int diff_Suc_1)
  then have "int (Suc n) \<le> bitlen \<lfloor>\<bar>x\<bar>\<rfloor>"
    by (rule iffD2 [OF bitlen_ge_iff_power, OF disjI2])
  then have n: "int n \<le> e"
    by (simp add: e)
  have e0: "0 \<le> e"
    using n by simp
  have "(2::int) ^ nat e \<le> \<lfloor>\<bar>x\<bar>\<rfloor>"
    using bitlen_bounds [OF pos] by (simp add: e)
  then have "(2::real) ^ nat e \<le> \<bar>x\<bar>"
    by (simp add: le_floor_iff)
  then have low: "2 powi e \<le> \<bar>x\<bar>"
    using e0 by (simp add: power_int_def)
  have split: "(2::real) powi e = 2 ^ 52 * u"
    using power_int_add [of "2::real" 52 "e - 52"] by (simp add: u_def)
  have scaled: "2 ^ 52 \<le> \<bar>x\<bar> / u"
    using low u by (simp add: split pos_le_divide_eq)
  have int52: "(2::real) ^ 52 = of_int (2 ^ 52)"
    by simp
  have "2 ^ 52 \<le> \<bar>real_of_int (round_half_even (x / u))\<bar>"
  proof (cases "0 \<le> x")
    case True
    then have "(2::int) ^ 52 \<le> \<lfloor>x / u\<rfloor>"
      using scaled unfolding int52 by (simp only: le_floor_iff abs_of_nonneg)
    then have "(2::int) ^ 52 \<le> round_half_even (x / u)"
      using round_half_even_ge_floor [of "x / u"] by linarith
    then have "real_of_int (2 ^ 52) \<le> real_of_int (round_half_even (x / u))"
      by (simp only: of_int_le_iff)
    then show ?thesis
      unfolding int52 by linarith
  next
    case False
    then have "x / u \<le> - of_int (2 ^ 52)"
      using scaled unfolding int52 by (simp add: abs_of_neg)
    then have "x / u \<le> of_int (- (2 ^ 52))"
      by simp
    then have "\<lceil>x / u\<rceil> \<le> - (2 ^ 52)"
      by (simp only: ceiling_le_iff)
    then have "round_half_even (x / u) \<le> - (2 ^ 52)"
      using round_half_even_le_ceiling [of "x / u"] by linarith
    then have "real_of_int (round_half_even (x / u)) \<le> real_of_int (- (2 ^ 52))"
      by (simp only: of_int_le_iff)
    then have "real_of_int (round_half_even (x / u)) \<le> - real_of_int (2 ^ 52)"
      by (simp only: of_int_minus)
    then show ?thesis
      unfolding int52 by linarith
  qed
  then have "2 ^ 52 * u \<le> \<bar>real_of_int (round_half_even (x / u))\<bar> * u"
    using u by simp
  moreover have "\<bar>fl64 x\<bar> = \<bar>real_of_int (round_half_even (x / u))\<bar> * u"
    using one u by (auto simp: fl64_def u_def e_def abs_mult)
  moreover have "(2::real) ^ n \<le> 2 powi e"
    using n e0 by (simp add: power_int_def nat_le_iff power_increasing)
  ultimately show ?thesis
    by (simp add: split)
qed

section \<open>The new expiry\<close>

lemma int_to_float_exact: "\<bar>i\<bar> < 2 ^ 53 \<Longrightarrow> int_to_float i = Inr (of_int i)"
proof -
  assume small: "\<bar>i\<bar> < 2 ^ 53"
  then have "\<bar>real_of_int i\<bar> < 2 ^ 53"
    by (metis of_int_abs of_int_less_numeral_power_cancel_iff)
  also have "(2::real) ^ 53 \<le> 2 ^ 1024"
    by (rule power_increasing) simp_all
  finally show ?thesis
    using small by (simp add: int_to_float_def fl64_of_int float_overflow_bound_def)
qed

lemma int_to_float_overflow:
  "2 ^ 1024 \<le> \<bar>i\<bar> \<Longrightarrow> int_to_float i = Inl OverflowError"
proof -
  assume "2 ^ 1024 \<le> \<bar>i\<bar>"
  then have "(2::real) ^ 1024 \<le> \<bar>real_of_int i\<bar>"
    by (metis of_int_abs of_int_numeral of_int_power of_int_le_iff)
  then have "2 ^ 1024 \<le> \<bar>fl64 (of_int i)\<bar>"
    by (rule fl64_magnitude)
  then show ?thesis
    by (simp add: int_to_float_def float_overflow_bound_def)
qed

lemma py_add_time_int:
  "\<bar>i\<bar> < 2 ^ 53 \<Longrightarrow> py_add_time t (PInt i) = Inr (fl64 (t + of_int i))"
  by (simp add: int_to_float_exact)

lemma py_add_time_overflow:
  "2 ^ 1024 \<le> \<bar>i\<bar> \<Longrightarrow> py_add_time t (PInt i) = Inl OverflowError"
  by (simp add: int_to_float_overflow)

lemma py_add_time_default: "py_add_time t (PInt 3600) = Inr (fl64 (t + 3600))"
  using py_add_time_int [of 3600 t] by simp

lemma py_add_time_whole_seconds:
  assumes "\<bar>i\<bar> < 2 ^ 53" and "\<bar>n + i\<bar> < 2 ^ 53"
  shows "py_add_time (of_int n) (PInt i) = Inr (of_int (n + i))"
proof -
  have "fl64 (real_of_int n + real_of_int i) = real_of_int (n + i)"
    using fl64_of_int [OF assms(2)] by (simp only: of_int_add)
  then show ?thesis
    by (simp only: py_add_time_int [OF assms(1)])
qed

lemma py_add_time_error:
  "py_add_time t v = Inl e \<Longrightarrow> e = TypeError \<or> e = OverflowError"
  by (cases v) (auto simp: int_to_float_def split: if_splits)

lemma py_add_time_not_a_number:
  "py_add_time t PNone = Inl TypeError"
  "py_add_time t (PStr s) = Inl TypeError"
  "py_add_time t (PList xs) = Inl TypeError"
  "py_add_time t (PDict kvs) = Inl TypeError"
  by simp_all

declare py_add_time.simps [simp del]

lemma ex_expiry:
  "py_add_time 1000 (PInt 3600) = Inr 4600"
  "py_add_time 1011 (PInt 3600) = Inr 4611"
  "py_add_time 4540 (PInt 3600) = Inr 8140"
  using py_add_time_whole_seconds [of 3600 1000] py_add_time_whole_seconds [of 3600 1011]
    py_add_time_whole_seconds [of 3600 4540]
  by simp_all

section \<open>Step 2: the invalidation\<close>

lemma invalidate_cfg [simp]: "cfg (invalidate st w) = cfg w"
  by (simp add: invalidate_def)

lemma invalidate_sent [simp]: "sent (invalidate st w) = sent w"
  by (simp add: invalidate_def)

lemma invalidate_last [simp]:
  "last_base_url (client (invalidate st w)) = last_base_url (client w)"
  "last_username (client (invalidate st w)) = last_username (client w)"
  "last_password (client (invalidate st w)) = last_password (client w)"
  by (simp_all add: invalidate_def)

lemma invalidate_unchanged: "\<not> credentials_changed st w \<Longrightarrow> invalidate st w = w"
  by (simp add: invalidate_def)

lemma invalidate_changed:
  "credentials_changed st w \<Longrightarrow>
     token (client (invalidate st w)) = PNone \<and> token_expires_at (client (invalidate st w)) = 0"
  by (simp add: invalidate_def)

lemma invalidate_changed_invalid:
  "credentials_changed st w \<Longrightarrow> \<not> is_token_valid now (client (invalidate st w))"
  by (simp add: invalidate_def is_token_valid_def)

section \<open>The login exchange, outcome by outcome\<close>

lemma fetch_transport:
  "api (login_request_of st (cfg w)) = Transport_Failure \<Longrightarrow>
   fetch_new_token st api now w
     = (Inl RequestError, w\<lparr>sent := sent w @ [login_request_of st (cfg w)]\<rparr>)"
  by (simp add: fetch_new_token_def login_request_of_def Let_def)

lemma fetch_rejected:
  "api (login_request_of st (cfg w)) = Response status body decoded \<Longrightarrow> \<not> is_success status \<Longrightarrow>
   fetch_new_token st api now w
     = (Inl (HTTPStatusError status body), w\<lparr>sent := sent w @ [login_request_of st (cfg w)]\<rparr>)"
  by (simp add: fetch_new_token_def login_request_of_def Let_def)

lemma fetch_undecodable:
  "api (login_request_of st (cfg w)) = Response status body None \<Longrightarrow> is_success status \<Longrightarrow>
   fetch_new_token st api now w
     = (Inl JSONDecodeError, w\<lparr>sent := sent w @ [login_request_of st (cfg w)]\<rparr>)"
  by (simp add: fetch_new_token_def login_request_of_def Let_def)

lemma fetch_not_dict:
  "api (login_request_of st (cfg w)) = Response status body (Some v) \<Longrightarrow> is_success status \<Longrightarrow>
   \<not> is_dict v \<Longrightarrow>
   fetch_new_token st api now w
     = (Inl AttributeError, w\<lparr>sent := sent w @ [login_request_of st (cfg w)]\<rparr>)"
  by (cases v) (simp_all add: fetch_new_token_def login_request_of_def Let_def)

lemma fetch_no_token:
  "api (login_request_of st (cfg w)) = Response status body (Some (PDict d)) \<Longrightarrow>
   is_success status \<Longrightarrow> \<not> py_truthy (dict_get d ''access_token'' PNone) \<Longrightarrow>
   fetch_new_token st api now w
     = (Inl (ValueError ''No access_token in response''),
        w\<lparr>sent := sent w @ [login_request_of st (cfg w)],
          client := (client w)\<lparr>token := dict_get d ''access_token'' PNone\<rparr>\<rparr>)"
  by (simp add: fetch_new_token_def login_request_of_def Let_def)

lemma fetch_bad_expiry:
  "api (login_request_of st (cfg w)) = Response status body (Some (PDict d)) \<Longrightarrow>
   is_success status \<Longrightarrow> py_truthy (dict_get d ''access_token'' PNone) \<Longrightarrow>
   py_add_time now (dict_get d ''expires_in'' (PInt 3600)) = Inl err \<Longrightarrow>
   fetch_new_token st api now w
     = (Inl err,
        w\<lparr>sent := sent w @ [login_request_of st (cfg w)],
          client := (client w)\<lparr>token := dict_get d ''access_token'' PNone\<rparr>\<rparr>)"
  by (simp add: fetch_new_token_def login_request_of_def Let_def)

text \<open>An \<open>expires_in\<close> that is an integer too large for a double: the new token has
  been stored, the expiry and the remembered credentials have not.\<close>

lemma fetch_overflow:
  assumes "api (login_request_of st (cfg w)) = Response status body (Some (PDict d))"
    and "is_success status"
    and "py_truthy (dict_get d ''access_token'' PNone)"
    and "map_of d ''expires_in'' = Some (PInt i)"
    and "2 ^ 1024 \<le> \<bar>i\<bar>"
  shows "fetch_new_token st api now w
     = (Inl OverflowError,
        w\<lparr>sent := sent w @ [login_request_of st (cfg w)],
          client := (client w)\<lparr>token := dict_get d ''access_token'' PNone\<rparr>\<rparr>)"
proof -
  have "py_add_time now (dict_get d ''expires_in'' (PInt 3600)) = Inl OverflowError"
    using assms(4,5) by (simp add: dict_get_def py_add_time_overflow)
  with assms(1-3) show ?thesis
    by (rule fetch_bad_expiry)
qed

lemma fetch_success:
  "api (login_request_of st (cfg w)) = Response status body (Some (PDict d)) \<Longrightarrow>
   is_success status \<Longrightarrow> py_truthy (dict_get d ''access_token'' PNone) \<Longrightarrow>
   py_add_time now (dict_get d ''expires_in'' (PInt 3600)) = Inr e \<Longrightarrow>
   fetch_new_token st api now w
     = (Inr (),
        w\<lparr>sent := sent w @ [login_request_of st (cfg w)],
          client := \<lparr>token = dict_get d ''access_token'' PNone, token_expires_at = e,
                     last_base_url = Some (get_external_api_base_url st (cfg w)),
                     last_username = Some (get_external_api_username st (cfg w)),
                     last_password = Some (get_external_api_password st (cfg w))\<rparr>\<rparr>)"
  by (simp add: fetch_new_token_def login_request_of_def Let_def)

lemma fetch_sent:
  "sent (snd (fetch_new_token st api now w)) = sent w @ [login_request_of st (cfg w)]"
  by (simp add: fetch_new_token_def login_request_of_def Let_def
      split: http_outcome.split option.split pyval.split sum.split)

lemma fetch_cfg: "cfg (snd (fetch_new_token st api now w)) = cfg w"
  by (simp add: fetch_new_token_def Let_def
      split: http_outcome.split option.split pyval.split sum.split)

lemma fetch_failure_keeps:
  assumes "fetch_new_token st api now w = (Inl e, w')"
  shows "token_expires_at (client w') = token_expires_at (client w)"
    and "last_base_url (client w') = last_base_url (client w)"
    and "last_username (client w') = last_username (client w)"
    and "last_password (client w') = last_password (client w)"
  using assms
  by (auto simp: fetch_new_token_def Let_def
      split: http_outcome.splits option.splits pyval.splits sum.splits if_splits)

lemma fetch_ok_only_if_success:
  assumes "fetch_new_token st api now w = (Inr u, w')"
  shows "\<exists>status body d.
     api (login_request_of st (cfg w)) = Response status body (Some (PDict d))
     \<and> is_success status
     \<and> py_truthy (dict_get d ''access_token'' PNone)
     \<and> token (client w') = dict_get d ''access_token'' PNone"
  using assms
  by (auto simp: fetch_new_token_def login_request_of_def Let_def
      split: http_outcome.splits option.splits pyval.splits sum.splits if_splits)

section \<open>The two ways through \<open>get_access_token\<close>\<close>

lemma get_access_token_hit:
  "is_token_valid now (client (invalidate st w)) \<Longrightarrow>
   get_access_token st api now now' w = (Inr (token (client (invalidate st w))), invalidate st w)"
  by (simp add: get_access_token_def Let_def)

lemma get_access_token_miss:
  "\<not> is_token_valid now (client (invalidate st w)) \<Longrightarrow>
   get_access_token st api now now' w =
     (case fetch_new_token st api now' (invalidate st w) of
        (Inl e, w2) \<Rightarrow> (Inl e, w2)
      | (Inr u, w2) \<Rightarrow> (Inr (token (client w2)), w2))"
  by (simp add: get_access_token_def Let_def)

lemma get_access_token_miss_world:
  "\<not> is_token_valid now (client (invalidate st w)) \<Longrightarrow>
   snd (get_access_token st api now now' w) = snd (fetch_new_token st api now' (invalidate st w))"
  by (auto simp: get_access_token_miss split: prod.split sum.split)

lemma get_access_token_miss_sent:
  "\<not> is_token_valid now (client (invalidate st w)) \<Longrightarrow>
   sent (snd (get_access_token st api now now' w)) = sent w @ [login_request_of st (cfg w)]"
  by (simp add: get_access_token_miss_world fetch_sent)


lemma get_access_token_failure:
  assumes "\<not> is_token_valid now (client (invalidate st w))"
    and "fetch_new_token st api now' (invalidate st w) = (Inl e, w')"
  shows "get_access_token st api now now' w = (Inl e, w')"
  using assms by (simp add: get_access_token_miss)

lemma get_access_token_error_is_fetch_error:
  assumes "get_access_token st api now now' w = (Inl e, w')"
  shows "fetch_new_token st api now' (invalidate st w) = (Inl e, w')"
  using assms
  by (auto simp: get_access_token_def Let_def split: if_splits prod.splits sum.splits)

lemma get_access_token_returns_truthy:
  assumes "fst (get_access_token st api now now' w) = Inr tok"
  shows "py_truthy tok"
proof (cases "is_token_valid now (client (invalidate st w))")
  case True
  then show ?thesis
    using assms by (auto simp: get_access_token_hit is_token_valid_def split: if_splits)
next
  case False
  obtain r w2 where fetched: "fetch_new_token st api now' (invalidate st w) = (r, w2)"
    by (cases "fetch_new_token st api now' (invalidate st w)")
  with assms False have "r = Inr ()" and "tok = token (client w2)"
    by (auto simp: get_access_token_miss split: sum.splits)
  with fetch_ok_only_if_success [of st api now' "invalidate st w" "()" w2] fetched
  show ?thesis
    by auto
qed

lemma get_authorized_client_error:
  "fst (get_access_token st api now now' w) = Inl e \<Longrightarrow>
   fst (get_authorized_client st api str_of now now' w) = Inl e"
  by (cases "get_access_token st api now now' w")
    (simp add: get_authorized_client_def)

lemma same_credentials_unchanged:
  "last_base_url (client w) = Some (get_external_api_base_url st (cfg w)) \<Longrightarrow>
   last_username (client w) = Some (get_external_api_username st (cfg w)) \<Longrightarrow>
   last_password (client w) = Some (get_external_api_password st (cfg w)) \<Longrightarrow>
   \<not> credentials_changed st w"
  by (simp add: credentials_changed_def)

lemma first_login:
  "py_truthy (dict_get d ''access_token'' PNone) \<Longrightarrow>
   py_add_time now' (dict_get d ''expires_in'' (PInt 3600)) = Inr e \<Longrightarrow>
   get_access_token st (api_const (ok_body d)) now now' world_init
     = (Inr (dict_get d ''access_token'' PNone),
        \<lparr>cfg = runtime_config_init,
         client = \<lparr>token = dict_get d ''access_token'' PNone, token_expires_at = e,
                   last_base_url = Some (get_external_api_base_url st runtime_config_init),
                   last_username = Some (get_external_api_username st runtime_config_init),
                   last_password = Some (get_external_api_password st runtime_config_init)\<rparr>,
         sent = [login_request_of st runtime_config_init]\<rparr>)"
proof -
  have unchanged: "invalidate st world_init = world_init"
    by (simp add: invalidate_def credentials_changed_def world_init_def AuthClient_init_def)
  have invalid: "\<not> is_token_valid now (client (invalidate st world_init))"
    unfolding unchanged by (simp add: is_token_valid_def world_init_def AuthClient_init_def)
  have ok: "is_success 200"
    by (simp add: is_success_def)
  assume "py_truthy (dict_get d ''access_token'' PNone)"
    and "py_add_time now' (dict_get d ''expires_in'' (PInt 3600)) = Inr e"
  then have "fetch_new_token st (api_const (ok_body d)) now' world_init
     = (Inr (),
        world_init\<lparr>sent := sent world_init @ [login_request_of st (cfg world_init)],
          client := \<lparr>token = dict_get d ''access_token'' PNone, token_expires_at = e,
                     last_base_url = Some (get_external_api_base_url st (cfg world_init)),
                     last_username = Some (get_external_api_username st (cfg world_init)),
                     last_password = Some (get_external_api_password st (cfg world_init))\<rparr>\<rparr>)"
    using ok by (intro fetch_success [where status = 200 and body = "[]"])
      (simp_all add: api_const_def ok_body_def)
  then show ?thesis
    using invalid by (simp add: get_access_token_miss unchanged) (simp add: world_init_def)
qed

section \<open>The example worlds\<close>

lemma ex_settings_request:
  "login_request_of ex_settings runtime_config_init
     = \<lparr>req_url = ''http://api/login'', req_user_name = ''admin'', req_password = ''secret'',
        req_content_type = ''application/json'', req_timeout = 30\<rparr>"
  by (simp add: login_request_of_def ex_settings_def get_external_api_base_url_def
      get_external_api_username_def get_external_api_password_def runtime_config_init_def)

lemma ex_settings_credentials:
  "get_external_api_base_url ex_settings runtime_config_init = ''http://api''"
  "get_external_api_username ex_settings runtime_config_init = ''admin''"
  "get_external_api_password ex_settings runtime_config_init = ''secret''"
  by (simp_all add: ex_settings_def get_external_api_base_url_def
      get_external_api_username_def get_external_api_password_def runtime_config_init_def)

lemma ex_cached_unchanged: "invalidate ex_settings ex_cached = ex_cached"
  by (rule invalidate_unchanged, rule same_credentials_unchanged)
    (simp_all add: ex_cached_def ex_settings_credentials)

lemma ex_world_unchanged: "invalidate ex_settings (ex_world t) = ex_world t"
  by (rule invalidate_unchanged, rule same_credentials_unchanged)
    (simp_all add: ex_world_def ex_settings_credentials)

section \<open>Serving from the cache\<close>

text \<open>
  C1. Let the client hold a token (one that Python counts as true, as every token stored by
  a successful login is), let the three remembered credentials be the ones the
  configuration gives now, and let the clock be strictly before the expiry minus 60
  seconds. Then \<open>get_access_token\<close> returns the held token and the world it leaves is
  the world it found: no request is sent and no field is written. The external API and
  the second clock value are arbitrary, since they are not consulted.
\<close>

theorem cache_hit:
  assumes "py_truthy (token (client w))"
    and "last_base_url (client w) = Some (get_external_api_base_url st (cfg w))"
    and "last_username (client w) = Some (get_external_api_username st (cfg w))"
    and "last_password (client w) = Some (get_external_api_password st (cfg w))"
    and "now < token_expires_at (client w) - 60"
  shows "get_access_token st api now now' w = (Inr (token (client w)), w)"
proof -
  have same: "invalidate st w = w"
    using assms(2-4) by (simp add: invalidate_unchanged same_credentials_unchanged)
  have "is_token_valid now (client w)"
    using assms(1,5) by (simp add: is_token_valid_def)
  then show ?thesis
    using get_access_token_hit [of now st w api now'] by (simp add: same)
qed

text \<open>The scenario of the specification: a first login at 1000 answered with
  \<open>expires_in = 3600\<close>, then a request at 1010, against an API that would now fail.\<close>

theorem cache_hit_witness:
  "get_access_token ex_settings
      (api_const (ok_body [(''access_token'', PStr ''tok''), (''expires_in'', PInt 3600)]))
      1000 1000 world_init
     = (Inr (PStr ''tok''), ex_cached)
   \<and> sent ex_cached = [login_request_of ex_settings runtime_config_init]
   \<and> get_access_token ex_settings (api_const Transport_Failure) 1010 1010 ex_cached
     = (Inr (PStr ''tok''), ex_cached)"
proof -
  have login: "get_access_token ex_settings
      (api_const (ok_body [(''access_token'', PStr ''tok''), (''expires_in'', PInt 3600)]))
      1000 1000 world_init = (Inr (PStr ''tok''), ex_cached)"
    by (simp add: first_login [where e = 4600] dict_get_def ex_expiry ex_cached_def ex_settings_def
        get_external_api_base_url_def get_external_api_username_def
        get_external_api_password_def runtime_config_init_def login_request_of_def)
  have hit: "get_access_token ex_settings (api_const Transport_Failure) 1010 1010 ex_cached
     = (Inr (token (client ex_cached)), ex_cached)"
    by (rule cache_hit)
      (simp_all add: ex_cached_def ex_settings_def get_external_api_base_url_def
        get_external_api_username_def get_external_api_password_def runtime_config_init_def)
  show ?thesis
    using login hit
    by (simp add: ex_cached_def ex_settings_def login_request_of_def
        get_external_api_base_url_def get_external_api_username_def
        get_external_api_password_def runtime_config_init_def)
qed


section \<open>Changed credentials\<close>

text \<open>
  C2. Let the client remember the credentials \<open>b\<close>, \<open>u\<close>, \<open>p\<close> of its last successful
  login, and let one setter store a value different from the remembered one. Then the next
  \<open>get_access_token\<close>, at any clock value and whatever the old expiry is, discards the
  held token in step 2, sends exactly one login request, built from the new configuration,
  and, when that exchange succeeds, returns the token of its response and stores it with
  the new credentials.
\<close>

theorem credential_change_invalidation:
  assumes "last_base_url (client w) = Some b"
    and "last_username (client w) = Some u"
    and "last_password (client w) = Some p"
    and "(rc = set_external_api_base_url v (cfg w) \<and> v \<noteq> b)
       \<or> (rc = set_external_api_username v (cfg w) \<and> v \<noteq> u)
       \<or> (rc = set_external_api_password v (cfg w) \<and> v \<noteq> p)"
  shows "token (client (invalidate st (w\<lparr>cfg := rc\<rparr>))) = PNone
    \<and> sent (snd (get_access_token st api now now' (w\<lparr>cfg := rc\<rparr>)))
        = sent w @ [login_request_of st rc]
    \<and> (api (login_request_of st rc) = Response status body (Some (PDict d))
         \<and> is_success status
         \<and> py_truthy (dict_get d ''access_token'' PNone)
         \<and> py_add_time now' (dict_get d ''expires_in'' (PInt 3600)) = Inr e
       \<longrightarrow> get_access_token st api now now' (w\<lparr>cfg := rc\<rparr>)
           = (Inr (dict_get d ''access_token'' PNone),
              \<lparr>cfg = rc,
               client = \<lparr>token = dict_get d ''access_token'' PNone, token_expires_at = e,
                         last_base_url = Some (get_external_api_base_url st rc),
                         last_username = Some (get_external_api_username st rc),
                         last_password = Some (get_external_api_password st rc)\<rparr>,
               sent = sent w @ [login_request_of st rc]\<rparr>))"
proof -
  let ?w = "w\<lparr>cfg := rc\<rparr>"
  have changed: "credentials_changed st ?w"
    using assms
    by (auto simp: credentials_changed_def set_external_api_base_url_def
        set_external_api_username_def set_external_api_password_def
        get_external_api_base_url_def get_external_api_username_def
        get_external_api_password_def)
  have discarded: "token (client (invalidate st ?w)) = PNone"
    using changed by (simp add: invalidate_changed)
  have invalid: "\<not> is_token_valid now (client (invalidate st ?w))"
    using changed by (rule invalidate_changed_invalid)
  have one_login: "sent (snd (get_access_token st api now now' ?w))
      = sent w @ [login_request_of st rc]"
    using get_access_token_miss_sent [OF invalid, of api now'] by simp
  have fresh: "get_access_token st api now now' ?w
      = (Inr (dict_get d ''access_token'' PNone),
         \<lparr>cfg = rc,
          client = \<lparr>token = dict_get d ''access_token'' PNone, token_expires_at = e,
                    last_base_url = Some (get_external_api_base_url st rc),
                    last_username = Some (get_external_api_username st rc),
                    last_password = Some (get_external_api_password st rc)\<rparr>,
          sent = sent w @ [login_request_of st rc]\<rparr>)"
    if "api (login_request_of st rc) = Response status body (Some (PDict d))"
      and "is_success status"
      and "py_truthy (dict_get d ''access_token'' PNone)"
      and "py_add_time now' (dict_get d ''expires_in'' (PInt 3600)) = Inr e"
  proof -
    have "api (login_request_of st (cfg (invalidate st ?w)))
        = Response status body (Some (PDict d))"
      using that(1) by simp
    then have "fetch_new_token st api now' (invalidate st ?w)
        = (Inr (),
           (invalidate st ?w)\<lparr>sent := sent (invalidate st ?w)
                @ [login_request_of st (cfg (invalidate st ?w))],
             client := \<lparr>token = dict_get d ''access_token'' PNone, token_expires_at = e,
               last_base_url = Some (get_external_api_base_url st (cfg (invalidate st ?w))),
               last_username = Some (get_external_api_username st (cfg (invalidate st ?w))),
               last_password = Some (get_external_api_password st (cfg (invalidate st ?w)))\<rparr>\<rparr>)"
      using that(2-4) by (rule fetch_success)
    then show ?thesis
      using invalid by (simp add: get_access_token_miss)
  qed
  show ?thesis
    using discarded one_login fresh by blast
qed

text \<open>The user name is changed ten seconds after the first login, long before the old
  token expires.\<close>

theorem credential_change_invalidation_witness:
  "get_access_token ex_settings
      (api_const (ok_body [(''access_token'', PStr ''new'')])) 1010 1011
      (ex_cached\<lparr>cfg := set_external_api_username ''bob'' runtime_config_init\<rparr>)
     = (Inr (PStr ''new''),
        \<lparr>cfg = set_external_api_username ''bob'' runtime_config_init,
         client = \<lparr>token = PStr ''new'', token_expires_at = 4611,
                   last_base_url = Some ''http://api'', last_username = Some ''bob'',
                   last_password = Some ''secret''\<rparr>,
         sent = sent ex_cached @
           [\<lparr>req_url = ''http://api/login'', req_user_name = ''bob'',
             req_password = ''secret'', req_content_type = ''application/json'',
             req_timeout = 30\<rparr>]\<rparr>)"
proof -
  have "get_access_token ex_settings
      (api_const (ok_body [(''access_token'', PStr ''new'')])) 1010 1011
      (ex_cached\<lparr>cfg := set_external_api_username ''bob'' (cfg ex_cached)\<rparr>)
     = (Inr (dict_get [(''access_token'', PStr ''new'')] ''access_token'' PNone),
        \<lparr>cfg = set_external_api_username ''bob'' (cfg ex_cached),
         client = \<lparr>token = dict_get [(''access_token'', PStr ''new'')] ''access_token'' PNone,
            token_expires_at = 4611,
            last_base_url = Some (get_external_api_base_url ex_settings
              (set_external_api_username ''bob'' (cfg ex_cached))),
            last_username = Some (get_external_api_username ex_settings
              (set_external_api_username ''bob'' (cfg ex_cached))),
            last_password = Some (get_external_api_password ex_settings
              (set_external_api_username ''bob'' (cfg ex_cached)))\<rparr>,
         sent = sent ex_cached @ [login_request_of ex_settings
              (set_external_api_username ''bob'' (cfg ex_cached))]\<rparr>)"
    using credential_change_invalidation [of ex_cached "''http://api''" "''admin''" "''secret''"
        "set_external_api_username ''bob'' (cfg ex_cached)" "''bob''" ex_settings
        "api_const (ok_body [(''access_token'', PStr ''new'')])" 1010 1011
        200 "[]" "[(''access_token'', PStr ''new'')]" 4611]
    by (simp add: ex_cached_def api_const_def ok_body_def is_success_def dict_get_def ex_expiry)
  then show ?thesis
    by (simp add: ex_cached_def ex_settings_def login_request_of_def dict_get_def
        get_external_api_base_url_def get_external_api_username_def
        get_external_api_password_def set_external_api_username_def runtime_config_init_def)
qed


section \<open>The default expiry and the edge of the safety margin\<close>

text \<open>
  C3, as stated, fails at the boundary. A login at 1000 whose response has no
  \<open>expires_in\<close> gives the expiry 4600; the request at exactly 1000 + 3540 is not served
  from the cache: a second login request is sent and its token is returned. (All the
  numbers involved are integers that a float holds exactly, so the arithmetic of the
  source gives the same.)
\<close>

theorem default_expiry_boundary_counterexample:
  "get_access_token ex_settings (api_const (ok_body [(''access_token'', PStr ''tok'')]))
      1000 1000 world_init = (Inr (PStr ''tok''), ex_cached)
   \<and> token_expires_at (client ex_cached) = 1000 + 3600
   \<and> fst (get_access_token ex_settings (api_const (ok_body [(''access_token'', PStr ''tok2'')]))
        (1000 + 3540) (1000 + 3540) ex_cached) = Inr (PStr ''tok2'')
   \<and> length (sent (snd (get_access_token ex_settings
        (api_const (ok_body [(''access_token'', PStr ''tok2'')]))
        (1000 + 3540) (1000 + 3540) ex_cached))) = 2"
proof -
  have login: "get_access_token ex_settings
      (api_const (ok_body [(''access_token'', PStr ''tok'')])) 1000 1000 world_init
      = (Inr (PStr ''tok''), ex_cached)"
    by (simp add: first_login [where e = 4600] dict_get_def ex_expiry ex_cached_def
        ex_settings_credentials ex_settings_request)
  have invalid: "\<not> is_token_valid (1000 + 3540) (client (invalidate ex_settings ex_cached))"
    by (simp add: ex_cached_unchanged) (simp add: is_token_valid_def ex_cached_def)
  have "fetch_new_token ex_settings (api_const (ok_body [(''access_token'', PStr ''tok2'')]))
      (1000 + 3540) ex_cached
      = (Inr (),
         ex_cached\<lparr>sent := sent ex_cached @ [login_request_of ex_settings (cfg ex_cached)],
           client := \<lparr>token = dict_get [(''access_token'', PStr ''tok2'')] ''access_token'' PNone,
             token_expires_at = 8140,
             last_base_url = Some (get_external_api_base_url ex_settings (cfg ex_cached)),
             last_username = Some (get_external_api_username ex_settings (cfg ex_cached)),
             last_password = Some (get_external_api_password ex_settings (cfg ex_cached))\<rparr>\<rparr>)"
    by (rule fetch_success [where status = 200 and body = "[]"])
      (simp_all add: api_const_def ok_body_def is_success_def dict_get_def ex_expiry)
  then have again: "get_access_token ex_settings
      (api_const (ok_body [(''access_token'', PStr ''tok2'')])) (1000 + 3540) (1000 + 3540) ex_cached
      = (Inr (PStr ''tok2''),
         ex_cached\<lparr>sent := sent ex_cached @ [login_request_of ex_settings (cfg ex_cached)],
           client := \<lparr>token = PStr ''tok2'', token_expires_at = 8140,
             last_base_url = Some (get_external_api_base_url ex_settings (cfg ex_cached)),
             last_username = Some (get_external_api_username ex_settings (cfg ex_cached)),
             last_password = Some (get_external_api_password ex_settings (cfg ex_cached))\<rparr>\<rparr>)"
    using invalid by (simp add: get_access_token_miss ex_cached_unchanged dict_get_def)
  show ?thesis
    unfolding login again by (simp add: ex_cached_def)
qed

text \<open>
  C3, amended. A successful login whose response has no \<open>expires_in\<close>, handled at time
  \<open>T\<close>, stores as expiry the double nearest to \<open>T + 3600\<close>, which is \<open>T + 3600\<close>
  itself when \<open>T\<close> is a whole number of seconds. With the configuration unchanged, a
  request strictly before the stored expiry minus 60 returns the stored token and leaves
  the world as it is, whatever the API would answer; a request at the stored expiry minus
  60 or later sends one new login request. So, for a clock with \<open>T + 3600\<close> between 1 and
  \<open>2 ^ 53\<close>, a request up to \<open>T + 3539\<close> is served from the cache and a request from
  \<open>T + 3550\<close> on is a refresh; and when \<open>T\<close> is a whole number of seconds the request at
  exactly \<open>T + 3540\<close> is a refresh.
\<close>

theorem default_expiry_strict_boundary:
  assumes "api (login_request_of st (cfg w)) = Response status body (Some (PDict d))"
    and "is_success status"
    and "py_truthy (dict_get d ''access_token'' PNone)"
    and "map_of d ''expires_in'' = None"
    and "w1 = snd (fetch_new_token st api T w)"
  shows "fst (fetch_new_token st api T w) = Inr ()
    \<and> token (client w1) = dict_get d ''access_token'' PNone
    \<and> token_expires_at (client w1) = fl64 (T + 3600)
    \<and> (T = of_int n \<and> \<bar>n + 3600\<bar> < 2 ^ 53 \<longrightarrow> token_expires_at (client w1) = T + 3600)
    \<and> (now < token_expires_at (client w1) - 60 \<longrightarrow>
         get_access_token st api' now now' w1 = (Inr (dict_get d ''access_token'' PNone), w1))
    \<and> (token_expires_at (client w1) - 60 \<le> now \<longrightarrow>
         sent (snd (get_access_token st api' now now' w1))
           = sent w1 @ [login_request_of st (cfg w1)])
    \<and> (1 \<le> T + 3600 \<and> T + 3600 < 2 ^ 53 \<and> now \<le> T + 3539 \<longrightarrow>
         get_access_token st api' now now' w1 = (Inr (dict_get d ''access_token'' PNone), w1))
    \<and> (1 \<le> T + 3600 \<and> T + 3600 < 2 ^ 53 \<and> T + 3550 \<le> now \<longrightarrow>
         sent (snd (get_access_token st api' now now' w1))
           = sent w1 @ [login_request_of st (cfg w1)])
    \<and> (T = of_int n \<and> \<bar>n + 3600\<bar> < 2 ^ 53 \<and> now = T + 3540 \<longrightarrow>
         sent (snd (get_access_token st api' now now' w1))
           = sent w1 @ [login_request_of st (cfg w1)])"
proof -
  let ?e = "fl64 (T + 3600)"
  have expiry: "py_add_time T (dict_get d ''expires_in'' (PInt 3600)) = Inr ?e"
    using assms(4) by (simp add: dict_get_def py_add_time_default)
  note fetched = fetch_success [of api st w status body d T ?e, OF assms(1-3) expiry]
  have w1: "w1 = w\<lparr>sent := sent w @ [login_request_of st (cfg w)],
      client := \<lparr>token = dict_get d ''access_token'' PNone, token_expires_at = ?e,
        last_base_url = Some (get_external_api_base_url st (cfg w)),
        last_username = Some (get_external_api_username st (cfg w)),
        last_password = Some (get_external_api_password st (cfg w))\<rparr>\<rparr>"
    using assms(5) by (simp add: fetched)
  have stored: "token_expires_at (client w1) = ?e"
    by (simp add: w1)
  have whole: "?e = T + 3600" if "T = of_int n" and "\<bar>n + 3600\<bar> < 2 ^ 53"
    using fl64_of_int [OF that(2)] by (simp add: that(1))
  have near: "\<bar>?e - (T + 3600)\<bar> \<le> 1 / 2" if "1 \<le> T + 3600" and "T + 3600 < 2 ^ 53"
    using that by (intro fl64_error) simp_all
  have same: "invalidate st w1 = w1"
    by (rule invalidate_unchanged, rule same_credentials_unchanged) (simp_all add: w1)
  have valid: "is_token_valid now (client w1) \<longleftrightarrow> now < ?e - 60"
    using assms(3) by (auto simp: is_token_valid_def w1)
  have hit: "get_access_token st api' now now' w1 = (Inr (dict_get d ''access_token'' PNone), w1)"
    if "now < ?e - 60"
    using that get_access_token_hit [of now st w1 api' now'] valid
    by (simp add: same) (simp add: w1)
  have miss: "sent (snd (get_access_token st api' now now' w1))
      = sent w1 @ [login_request_of st (cfg w1)]"
    if "?e - 60 \<le> now"
    using that get_access_token_miss_sent [of now st w1 api' now'] valid
    by (simp add: same)
  have early: "now < ?e - 60" if "1 \<le> T + 3600" and "T + 3600 < 2 ^ 53" and "now \<le> T + 3539"
    using near [OF that(1,2)] that(3) by linarith
  have late: "?e - 60 \<le> now" if "1 \<le> T + 3600" and "T + 3600 < 2 ^ 53" and "T + 3550 \<le> now"
    using near [OF that(1,2)] that(3) by linarith
  have edge: "?e - 60 \<le> now" if "T = of_int n" and "\<bar>n + 3600\<bar> < 2 ^ 53" and "now = T + 3540"
    using whole [OF that(1,2)] that(3) by simp
  have ok: "fst (fetch_new_token st api T w) = Inr ()"
    by (simp add: fetched)
  have tok: "token (client w1) = dict_get d ''access_token'' PNone"
    by (simp add: w1)
  show ?thesis
    unfolding stored
    using ok tok whole hit miss early late edge by blast
qed

text \<open>The login at 1000 of the counterexample: a request at 4539 is served, requests at
  4540 and at 4550 are refreshes.\<close>

theorem default_expiry_strict_boundary_witness:
  "get_access_token ex_settings (api_const Transport_Failure) (1000 + 3539) 0 ex_cached
     = (Inr (PStr ''tok''), ex_cached)
   \<and> length (sent (snd (get_access_token ex_settings (api_const Transport_Failure)
        (1000 + 3540) 0 ex_cached))) = 2
   \<and> length (sent (snd (get_access_token ex_settings (api_const Transport_Failure)
        (1000 + 3550) 0 ex_cached))) = 2"
proof -
  have fetched: "fetch_new_token ex_settings
      (api_const (ok_body [(''access_token'', PStr ''tok'')])) 1000 world_init
      = (Inr (), ex_cached)"
    using fetch_success [of "api_const (ok_body [(''access_token'', PStr ''tok'')])"
        ex_settings world_init 200 "[]" "[(''access_token'', PStr ''tok'')]" 1000 4600]
    by (simp add: api_const_def ok_body_def is_success_def dict_get_def ex_expiry)
      (simp add: world_init_def ex_cached_def ex_settings_credentials ex_settings_request)
  have h1: "api_const (ok_body [(''access_token'', PStr ''tok'')])
      (login_request_of ex_settings (cfg world_init))
      = Response 200 [] (Some (PDict [(''access_token'', PStr ''tok'')]))"
    by (simp add: api_const_def ok_body_def)
  have h2: "is_success 200"
    by (simp add: is_success_def)
  have h3: "py_truthy (dict_get [(''access_token'', PStr ''tok'')] ''access_token'' PNone)"
    by (simp add: dict_get_def)
  have h4: "map_of [(''access_token'', PStr ''tok'')] ''expires_in'' = None"
    by simp
  have h5: "ex_cached = snd (fetch_new_token ex_settings
      (api_const (ok_body [(''access_token'', PStr ''tok'')])) 1000 world_init)"
    by (simp add: fetched)
  have stored: "token_expires_at (client ex_cached) = 4600"
    by (simp add: ex_cached_def)
  have before: "get_access_token ex_settings (api_const Transport_Failure) (1000 + 3539) 0 ex_cached
     = (Inr (PStr ''tok''), ex_cached)"
    using default_expiry_strict_boundary
      [of "api_const (ok_body [(''access_token'', PStr ''tok'')])" ex_settings world_init
        200 "[]" "[(''access_token'', PStr ''tok'')]" ex_cached 1000 1000 "1000 + 3539"
        "api_const Transport_Failure" 0, OF h1 h2 h3 h4 h5]
    by (simp add: dict_get_def stored)
  have edge: "sent (snd (get_access_token ex_settings (api_const Transport_Failure)
        (1000 + 3540) 0 ex_cached)) = sent ex_cached @ [login_request_of ex_settings (cfg ex_cached)]"
    using default_expiry_strict_boundary
      [of "api_const (ok_body [(''access_token'', PStr ''tok'')])" ex_settings world_init
        200 "[]" "[(''access_token'', PStr ''tok'')]" ex_cached 1000 1000 "1000 + 3540"
        "api_const Transport_Failure" 0, OF h1 h2 h3 h4 h5]
    by (simp add: stored)
  have after: "sent (snd (get_access_token ex_settings (api_const Transport_Failure)
        (1000 + 3550) 0 ex_cached)) = sent ex_cached @ [login_request_of ex_settings (cfg ex_cached)]"
    using default_expiry_strict_boundary
      [of "api_const (ok_body [(''access_token'', PStr ''tok'')])" ex_settings world_init
        200 "[]" "[(''access_token'', PStr ''tok'')]" ex_cached 1000 1000 "1000 + 3550"
        "api_const Transport_Failure" 0, OF h1 h2 h3 h4 h5]
    by (simp add: stored)
  show ?thesis
    unfolding before edge after by (simp add: ex_cached_def)
qed

section \<open>Failed login exchanges\<close>

text \<open>
  C4, as stated, fails. The client holds the expired token \<open>old\<close>, obtained with the
  current credentials, so step 2 invalidates nothing. The login response has status 200 and
  the body \<open>{}\<close>: the call raises, and the held token has been overwritten with \<open>None\<close>.
\<close>

theorem failed_login_atomicity_counterexample:
  "invalidate ex_settings (ex_world 100) = ex_world 100
   \<and> token (client (ex_world 100)) = PStr ''old''
   \<and> fst (get_access_token ex_settings (api_const (ok_body [])) 1000 1000 (ex_world 100))
       = Inl (ValueError ''No access_token in response'')
   \<and> token (client (snd (get_access_token ex_settings (api_const (ok_body [])) 1000 1000
        (ex_world 100)))) = PNone"
proof -
  have invalid: "\<not> is_token_valid 1000 (client (invalidate ex_settings (ex_world 100)))"
    by (simp add: ex_world_unchanged) (simp add: is_token_valid_def ex_world_def)
  have "fetch_new_token ex_settings (api_const (ok_body [])) 1000 (ex_world 100)
      = (Inl (ValueError ''No access_token in response''),
         (ex_world 100)\<lparr>sent := sent (ex_world 100)
              @ [login_request_of ex_settings (cfg (ex_world 100))],
           client := (client (ex_world 100))\<lparr>token := dict_get [] ''access_token'' PNone\<rparr>\<rparr>)"
    by (rule fetch_no_token [where status = 200 and body = "[]"])
      (simp_all add: api_const_def ok_body_def is_success_def dict_get_def ex_expiry)
  then have "get_access_token ex_settings (api_const (ok_body [])) 1000 1000 (ex_world 100)
      = (Inl (ValueError ''No access_token in response''),
         (ex_world 100)\<lparr>sent := sent (ex_world 100)
              @ [login_request_of ex_settings (cfg (ex_world 100))],
           client := (client (ex_world 100))\<lparr>token := dict_get [] ''access_token'' PNone\<rparr>\<rparr>)"
    using invalid by (simp add: get_access_token_miss ex_world_unchanged)
  then show ?thesis
    by (simp add: ex_world_unchanged dict_get_def) (simp add: ex_world_def)
qed

text \<open>
  C4, amended. Whenever a login exchange is made and fails, \<open>get_access_token\<close> raises.
  After a transport failure, a rejected status, a body that does not decode or one that
  is not a JSON object, the client is exactly as step 2 left it (only the request has been
  recorded as sent). After a
  success status whose body has no usable \<open>access_token\<close> (absent, \<open>null\<close>, empty), the
  expiry and the remembered credentials are as step 2 left them and the held token has
  been overwritten with that unusable value. In every failure, the expiry, the remembered
  credentials and the configuration are as step 2 left them.
\<close>

theorem failed_login_state:
  assumes "\<not> is_token_valid now (client (invalidate st w))"
    and "req = login_request_of st (cfg w)"
    and "w1 = (invalidate st w)\<lparr>sent := sent w @ [req]\<rparr>"
  shows "(api req = Transport_Failure \<longrightarrow>
            get_access_token st api now now' w = (Inl RequestError, w1))
    \<and> (api req = Response status body decoded \<and> \<not> is_success status \<longrightarrow>
            get_access_token st api now now' w = (Inl (HTTPStatusError status body), w1))
    \<and> (api req = Response status body None \<and> is_success status \<longrightarrow>
            get_access_token st api now now' w = (Inl JSONDecodeError, w1))
    \<and> (api req = Response status body (Some v) \<and> is_success status \<and> \<not> is_dict v \<longrightarrow>
            get_access_token st api now now' w = (Inl AttributeError, w1))
    \<and> (api req = Response status body (Some (PDict d)) \<and> is_success status
          \<and> \<not> py_truthy (dict_get d ''access_token'' PNone) \<longrightarrow>
            get_access_token st api now now' w
              = (Inl (ValueError ''No access_token in response''),
                 w1\<lparr>client := (client w1)\<lparr>token := dict_get d ''access_token'' PNone\<rparr>\<rparr>))
    \<and> (get_access_token st api now now' w = (Inl e, w') \<longrightarrow>
            token_expires_at (client w') = token_expires_at (client (invalidate st w))
          \<and> last_base_url (client w') = last_base_url (client w)
          \<and> last_username (client w') = last_username (client w)
          \<and> last_password (client w') = last_password (client w)
          \<and> cfg w' = cfg w)"
proof -
  let ?req = "login_request_of st (cfg w)"
  let ?w1 = "(invalidate st w)\<lparr>sent := sent w @ [?req]\<rparr>"
  note failure = get_access_token_failure [OF assms(1)]
  have transport: "get_access_token st api now now' w = (Inl RequestError, ?w1)"
    if "api ?req = Transport_Failure"
    using that fetch_transport [of api st "invalidate st w" now']
    by (simp add: failure)
  have rejected: "get_access_token st api now now' w = (Inl (HTTPStatusError status body), ?w1)"
    if "api ?req = Response status body decoded" and "\<not> is_success status"
    using that fetch_rejected [of api st "invalidate st w" status body decoded now']
    by (simp add: failure)
  have undecodable: "get_access_token st api now now' w = (Inl JSONDecodeError, ?w1)"
    if "api ?req = Response status body None" and "is_success status"
    using that fetch_undecodable [of api st "invalidate st w" status body now']
    by (simp add: failure)
  have not_dict: "get_access_token st api now now' w = (Inl AttributeError, ?w1)"
    if "api ?req = Response status body (Some v)" and "is_success status" and "\<not> is_dict v"
    using that fetch_not_dict [of api st "invalidate st w" status body v now']
    by (simp add: failure)
  have no_token: "get_access_token st api now now' w
      = (Inl (ValueError ''No access_token in response''),
         ?w1\<lparr>client := (client ?w1)\<lparr>token := dict_get d ''access_token'' PNone\<rparr>\<rparr>)"
    if "api ?req = Response status body (Some (PDict d))" and "is_success status"
      and "\<not> py_truthy (dict_get d ''access_token'' PNone)"
    using that fetch_no_token [of api st "invalidate st w" status body d now']
    by (simp add: failure)
  have kept: "token_expires_at (client w') = token_expires_at (client (invalidate st w))
      \<and> last_base_url (client w') = last_base_url (client w)
      \<and> last_username (client w') = last_username (client w)
      \<and> last_password (client w') = last_password (client w)
      \<and> cfg w' = cfg w"
    if "get_access_token st api now now' w = (Inl e, w')"
  proof -
    have failed: "fetch_new_token st api now' (invalidate st w) = (Inl e, w')"
      using that by (rule get_access_token_error_is_fetch_error)
    have "cfg w' = cfg w"
      using fetch_cfg [of st api now' "invalidate st w"] by (simp add: failed)
    then show ?thesis
      using fetch_failure_keeps [OF failed] by simp
  qed
  show ?thesis
    unfolding assms(2,3)
    using transport rejected undecodable not_dict no_token kept by blast
qed

text \<open>An expired token and a login answered with 401: the client keeps the old token
  and its expiry. The same, answered with 200 and an empty body: the token is gone.\<close>

theorem failed_login_state_witness:
  "get_access_token ex_settings (api_const (Response 401 ''denied'' None)) 1000 1000
      (ex_world 100)
     = (Inl (HTTPStatusError 401 ''denied''),
        (ex_world 100)\<lparr>sent := [login_request_of ex_settings runtime_config_init]\<rparr>)
   \<and> get_access_token ex_settings (api_const (ok_body [])) 1000 1000 (ex_world 100)
     = (Inl (ValueError ''No access_token in response''),
        (ex_world 100)\<lparr>sent := [login_request_of ex_settings runtime_config_init],
          client := (client (ex_world 100))\<lparr>token := PNone\<rparr>\<rparr>)"
proof -
  have invalid: "\<not> is_token_valid 1000 (client (invalidate ex_settings (ex_world 100)))"
    by (simp add: ex_world_unchanged) (simp add: is_token_valid_def ex_world_def)
  have req: "login_request_of ex_settings runtime_config_init
      = login_request_of ex_settings (cfg (ex_world 100))"
    by (simp add: ex_world_def)
  have w1: "(ex_world 100)\<lparr>sent := [login_request_of ex_settings runtime_config_init]\<rparr>
      = (invalidate ex_settings (ex_world 100))\<lparr>sent := sent (ex_world 100)
          @ [login_request_of ex_settings runtime_config_init]\<rparr>"
    by (simp add: ex_world_unchanged) (simp add: ex_world_def)
  have rejected: "get_access_token ex_settings (api_const (Response 401 ''denied'' None))
      1000 1000 (ex_world 100)
     = (Inl (HTTPStatusError 401 ''denied''),
        (ex_world 100)\<lparr>sent := [login_request_of ex_settings runtime_config_init]\<rparr>)"
    using failed_login_state [OF invalid req w1,
        of "api_const (Response 401 ''denied'' None)" 1000 401 "''denied''" None]
    by (simp add: api_const_def is_success_def)
  have malformed: "get_access_token ex_settings (api_const (ok_body [])) 1000 1000 (ex_world 100)
     = (Inl (ValueError ''No access_token in response''),
        (ex_world 100)\<lparr>sent := [login_request_of ex_settings runtime_config_init],
          client := (client (ex_world 100))\<lparr>token := PNone\<rparr>\<rparr>)"
    using failed_login_state [OF invalid req w1,
        of "api_const (ok_body [])" 1000 200 "[]" _ _ "[]"]
    by (simp add: api_const_def ok_body_def is_success_def dict_get_def ex_expiry)
  show ?thesis
    using rejected malformed by simp
qed


section \<open>A success response without a token\<close>

text \<open>
  C5. Let a login exchange be made (the cache is not valid after step 2) and be answered
  with a 2xx status and a JSON object that has no \<open>access_token\<close> field. Then
  \<open>get_access_token\<close> raises \<open>ValueError("No access_token in response")\<close>, the malformed
  response error of the specification, and the client holds no token. So the next call,
  at any time and under any configuration, finds no valid token and sends a login request.
\<close>

theorem malformed_response:
  assumes "\<not> is_token_valid now (client (invalidate st w))"
    and "api (login_request_of st (cfg w)) = Response status body (Some (PDict d))"
    and "is_success status"
    and "map_of d ''access_token'' = None"
    and "w' = snd (get_access_token st api now now' w)"
  shows "fst (get_access_token st api now now' w)
        = Inl (ValueError ''No access_token in response'')
    \<and> token (client w') = PNone
    \<and> \<not> is_token_valid t (client (invalidate st (w'\<lparr>cfg := rc\<rparr>)))
    \<and> sent (snd (get_access_token st api2 t t' (w'\<lparr>cfg := rc\<rparr>)))
        = sent w' @ [login_request_of st rc]"
proof -
  have absent: "dict_get d ''access_token'' PNone = PNone"
    using assms(4) by (simp add: dict_get_def)
  have "fetch_new_token st api now' (invalidate st w)
      = (Inl (ValueError ''No access_token in response''),
         (invalidate st w)\<lparr>sent := sent (invalidate st w)
              @ [login_request_of st (cfg (invalidate st w))],
           client := (client (invalidate st w))\<lparr>token := dict_get d ''access_token'' PNone\<rparr>\<rparr>)"
    using assms(2,3) by (intro fetch_no_token) (simp_all add: absent)
  then have result: "get_access_token st api now now' w
      = (Inl (ValueError ''No access_token in response''),
         (invalidate st w)\<lparr>sent := sent w @ [login_request_of st (cfg w)],
           client := (client (invalidate st w))\<lparr>token := PNone\<rparr>\<rparr>)"
    using assms(1) by (simp add: get_access_token_miss absent)
  have none: "token (client w') = PNone"
    by (simp add: assms(5) result)
  have "token (client (invalidate st (w'\<lparr>cfg := rc\<rparr>))) = PNone"
    using none by (simp add: invalidate_def)
  then have invalid: "\<not> is_token_valid t (client (invalidate st (w'\<lparr>cfg := rc\<rparr>)))"
    by (simp add: is_token_valid_def)
  have "sent (snd (get_access_token st api2 t t' (w'\<lparr>cfg := rc\<rparr>)))
      = sent w' @ [login_request_of st rc]"
    using get_access_token_miss_sent [OF invalid, of api2 t'] by simp
  then show ?thesis
    using none invalid by (simp add: result)
qed

text \<open>A first login answered with \<open>{"expires_in": 3600}\<close>, then a second call a
  second later.\<close>

theorem malformed_response_witness:
  "fst (get_access_token ex_settings (api_const (ok_body [(''expires_in'', PInt 3600)]))
      1000 1000 world_init) = Inl (ValueError ''No access_token in response'')
   \<and> token (client (snd (get_access_token ex_settings
        (api_const (ok_body [(''expires_in'', PInt 3600)])) 1000 1000 world_init))) = PNone
   \<and> length (sent (snd (get_access_token ex_settings (api_const Transport_Failure) 1001 1001
        (snd (get_access_token ex_settings
          (api_const (ok_body [(''expires_in'', PInt 3600)])) 1000 1000 world_init))))) = 2"
proof -
  let ?api = "api_const (ok_body [(''expires_in'', PInt 3600)])"
  let ?w' = "snd (get_access_token ex_settings ?api 1000 1000 world_init)"
  have h1: "\<not> is_token_valid 1000 (client (invalidate ex_settings world_init))"
    by (simp add: invalidate_def credentials_changed_def is_token_valid_def world_init_def
        AuthClient_init_def)
  have h2: "?api (login_request_of ex_settings (cfg world_init))
      = Response 200 [] (Some (PDict [(''expires_in'', PInt 3600)]))"
    by (simp add: api_const_def ok_body_def)
  have h3: "is_success 200"
    by (simp add: is_success_def)
  have h4: "map_of [(''expires_in'', PInt 3600)] ''access_token'' = None"
    by simp
  note fact = malformed_response [of 1000 ex_settings world_init ?api 200 "[]"
      "[(''expires_in'', PInt 3600)]" ?w' 1000 1001 "cfg ?w'" "api_const Transport_Failure" 1001,
      OF h1 h2 h3 h4 refl]
  have "length (sent ?w') = 1"
    using get_access_token_miss_sent [OF h1, of ?api 1000] by (simp add: world_init_def)
  then show ?thesis
    using fact by simp
qed

section \<open>Errors reach the caller\<close>

text \<open>
  C6. Let a login exchange be made (the cache is not valid after step 2). A transport
  failure, a status that is not 2xx, a body that does not decode and a 2xx answer without a
  usable \<open>access_token\<close> each come out of \<open>get_access_token\<close> and of
  \<open>get_authorized_client\<close> as the error raised, the rejected status with its code and
  body. And if \<open>get_access_token\<close> does return a token, the exchange has succeeded and the
  token is the one of its response: the token held before is never handed out in place
  of a failed refresh.
\<close>

theorem login_failure_propagates:
  assumes "\<not> is_token_valid now (client (invalidate st w))"
    and "req = login_request_of st (cfg w)"
  shows "(api req = Transport_Failure \<longrightarrow>
            fst (get_access_token st api now now' w) = Inl RequestError
          \<and> fst (get_authorized_client st api str_of now now' w) = Inl RequestError)
    \<and> (api req = Response status body decoded \<and> \<not> is_success status \<longrightarrow>
            fst (get_access_token st api now now' w) = Inl (HTTPStatusError status body)
          \<and> fst (get_authorized_client st api str_of now now' w)
              = Inl (HTTPStatusError status body))
    \<and> (api req = Response status body None \<and> is_success status \<longrightarrow>
            fst (get_access_token st api now now' w) = Inl JSONDecodeError
          \<and> fst (get_authorized_client st api str_of now now' w) = Inl JSONDecodeError)
    \<and> (api req = Response status body (Some (PDict d)) \<and> is_success status
          \<and> \<not> py_truthy (dict_get d ''access_token'' PNone) \<longrightarrow>
            fst (get_access_token st api now now' w)
              = Inl (ValueError ''No access_token in response'')
          \<and> fst (get_authorized_client st api str_of now now' w)
              = Inl (ValueError ''No access_token in response''))
    \<and> (fst (get_access_token st api now now' w) = Inr tok \<longrightarrow>
          (\<exists>status' body' d'. api req = Response status' body' (Some (PDict d'))
             \<and> is_success status' \<and> py_truthy tok
             \<and> tok = dict_get d' ''access_token'' PNone))"
proof -
  let ?req = "login_request_of st (cfg w)"
  note failure = get_access_token_failure [OF assms(1)]
  have transport: "fst (get_access_token st api now now' w) = Inl RequestError"
    if "api ?req = Transport_Failure"
    using that fetch_transport [of api st "invalidate st w" now']
    by (simp add: failure)
  have rejected: "fst (get_access_token st api now now' w) = Inl (HTTPStatusError status body)"
    if "api ?req = Response status body decoded" and "\<not> is_success status"
    using that fetch_rejected [of api st "invalidate st w" status body decoded now']
    by (simp add: failure)
  have undecodable: "fst (get_access_token st api now now' w) = Inl JSONDecodeError"
    if "api ?req = Response status body None" and "is_success status"
    using that fetch_undecodable [of api st "invalidate st w" status body now']
    by (simp add: failure)
  have no_token: "fst (get_access_token st api now now' w)
      = Inl (ValueError ''No access_token in response'')"
    if "api ?req = Response status body (Some (PDict d))" and "is_success status"
      and "\<not> py_truthy (dict_get d ''access_token'' PNone)"
    using that fetch_no_token [of api st "invalidate st w" status body d now']
    by (simp add: failure)
  have fresh: "\<exists>status' body' d'. api ?req = Response status' body' (Some (PDict d'))
      \<and> is_success status' \<and> py_truthy tok \<and> tok = dict_get d' ''access_token'' PNone"
    if "fst (get_access_token st api now now' w) = Inr tok"
  proof -
    obtain r w2 where fetched: "fetch_new_token st api now' (invalidate st w) = (r, w2)"
      by (cases "fetch_new_token st api now' (invalidate st w)")
    with that assms(1) have "r = Inr ()" and "tok = token (client w2)"
      by (auto simp: get_access_token_miss split: sum.splits)
    with fetch_ok_only_if_success [of st api now' "invalidate st w" "()" w2] fetched
    show ?thesis
      by auto
  qed
  show ?thesis
    unfolding assms(2)
    using transport rejected undecodable no_token fresh
      get_authorized_client_error [of st api now now' w _ str_of]
    by blast
qed

text \<open>The expired token \<open>old\<close> and a login answered with 401, with a transport failure
  and with 200 and an empty object.\<close>

theorem login_failure_propagates_witness:
  "fst (get_access_token ex_settings (api_const (Response 401 ''denied'' None)) 1000 1000
      (ex_world 100)) = Inl (HTTPStatusError 401 ''denied'')
   \<and> fst (get_authorized_client ex_settings (api_const (Response 401 ''denied'' None))
       (\<lambda>v. []) 1000 1000 (ex_world 100)) = Inl (HTTPStatusError 401 ''denied'')
   \<and> fst (get_access_token ex_settings (api_const Transport_Failure) 1000 1000
      (ex_world 100)) = Inl RequestError
   \<and> fst (get_authorized_client ex_settings (api_const (ok_body [])) (\<lambda>v. []) 1000 1000
      (ex_world 100)) = Inl (ValueError ''No access_token in response'')"
proof -
  have invalid: "\<not> is_token_valid 1000 (client (invalidate ex_settings (ex_world 100)))"
    by (simp add: ex_world_unchanged) (simp add: is_token_valid_def ex_world_def)
  show ?thesis
    using login_failure_propagates [OF invalid refl,
        of "api_const (Response 401 ''denied'' None)" 1000 "\<lambda>v. []" 401 "''denied''" None]
      login_failure_propagates [OF invalid refl, of "api_const Transport_Failure" 1000]
      login_failure_propagates [OF invalid refl,
        of "api_const (ok_body [])" 1000 "\<lambda>v. []" 200 "[]" _ "[]"]
    by (simp add: api_const_def ok_body_def is_success_def dict_get_def ex_expiry)
qed


section \<open>The authorized client\<close>

lemma get_authorized_client_built:
  assumes "get_access_token st api now now' w = (Inr tok, w')"
    and "is_ascii (py_format str_of tok)"
  shows "get_authorized_client st api str_of now now' w
      = (Inr \<lparr>headers = [(''Authorization'', ''Bearer '' @ py_format str_of tok)],
               timeout = 30\<rparr>, w')"
  using assms(2) by (simp add: get_authorized_client_def assms(1) Let_def is_ascii_def)

lemma get_authorized_client_not_ascii:
  assumes "get_access_token st api now now' w = (Inr tok, w')"
    and "\<not> is_ascii (py_format str_of tok)"
  shows "get_authorized_client st api str_of now now' w = (Inl UnicodeEncodeError, w')"
  using assms(2) by (simp add: get_authorized_client_def assms(1) Let_def is_ascii_def)

lemma get_authorized_client_world:
  "snd (get_authorized_client st api str_of now now' w) = snd (get_access_token st api now now' w)"
  by (cases "get_access_token st api now now' w")
    (auto simp: get_authorized_client_def Let_def split: sum.splits)

text \<open>
  C9, as stated, fails for a token with a character outside ASCII. The first login of a
  process is answered with the token \<open>t\<close>, \<open>o\<close> with diaeresis, \<open>k\<close>:
  \<open>get_access_token\<close> returns that string, and \<open>get_authorized_client\<close> returns no client
  but raises \<open>UnicodeEncodeError\<close>.
\<close>

theorem authorized_client_counterexample:
  "fst (get_access_token ex_settings
      (api_const (ok_body [(''access_token'', PStr non_ascii_token)])) 1000 1000 world_init)
     = Inr (PStr non_ascii_token)
   \<and> fst (get_authorized_client ex_settings
      (api_const (ok_body [(''access_token'', PStr non_ascii_token)])) (\<lambda>v. []) 1000 1000
      world_init) = Inl UnicodeEncodeError"
proof -
  have truthy: "py_truthy (dict_get [(''access_token'', PStr non_ascii_token)]
      ''access_token'' PNone)"
    by (simp add: dict_get_def non_ascii_token_def)
  have expiry: "py_add_time 1000 (dict_get [(''access_token'', PStr non_ascii_token)]
      ''expires_in'' (PInt 3600)) = Inr 4600"
    by (simp add: dict_get_def ex_expiry)
  obtain w' where login: "get_access_token ex_settings
      (api_const (ok_body [(''access_token'', PStr non_ascii_token)])) 1000 1000 world_init
      = (Inr (PStr non_ascii_token), w')"
    using first_login [OF truthy expiry, of ex_settings 1000] by (simp add: dict_get_def)
  have "\<not> is_ascii (py_format (\<lambda>v. []) (PStr non_ascii_token))"
    by (simp add: py_format_def is_ascii_def non_ascii_token_def)
  with login show ?thesis
    by (simp add: get_authorized_client_not_ascii)
qed

text \<open>
  C9, amended. \<open>get_authorized_client\<close> calls \<open>get_access_token\<close>. When that returns a
  token whose text is ASCII, the client built has the single header \<open>Authorization\<close> with
  the value \<open>Bearer\<close>, a space and the token (the string itself when the token is a
  string), and the timeout 30. When the text has a character outside ASCII, building the
  client raises \<open>UnicodeEncodeError\<close>. When \<open>get_access_token\<close> raises, the error is passed
  on. In every case the world left is the one \<open>get_access_token\<close> left, and a client is
  returned only with the token that \<open>get_access_token\<close> returned. In particular, on a
  cache hit with an ASCII token the client carries the held token and nothing is sent or
  written; after a login exchange that succeeds with an ASCII token the client carries
  the token of the response and exactly that one request has been sent.
\<close>

theorem authorized_client_wrapper:
  "(get_access_token st api now now' w = (Inr tok, w') \<and> is_ascii (py_format str_of tok) \<longrightarrow>
      get_authorized_client st api str_of now now' w
        = (Inr \<lparr>headers = [(''Authorization'', ''Bearer '' @ py_format str_of tok)],
                 timeout = 30\<rparr>, w'))
   \<and> py_format str_of (PStr s) = s
   \<and> (get_access_token st api now now' w = (Inr tok, w') \<and> \<not> is_ascii (py_format str_of tok)
        \<longrightarrow> get_authorized_client st api str_of now now' w = (Inl UnicodeEncodeError, w'))
   \<and> (get_access_token st api now now' w = (Inl e, w') \<longrightarrow>
      get_authorized_client st api str_of now now' w = (Inl e, w'))
   \<and> snd (get_authorized_client st api str_of now now' w)
       = snd (get_access_token st api now now' w)
   \<and> (get_authorized_client st api str_of now now' w = (Inr c, w') \<longrightarrow>
        timeout c = 30
        \<and> (\<exists>tok'. get_access_token st api now now' w = (Inr tok', w')
              \<and> headers c = [(''Authorization'', ''Bearer '' @ py_format str_of tok')]))
   \<and> (token (client w) = PStr s \<and> s \<noteq> [] \<and> is_ascii s
        \<and> last_base_url (client w) = Some (get_external_api_base_url st (cfg w))
        \<and> last_username (client w) = Some (get_external_api_username st (cfg w))
        \<and> last_password (client w) = Some (get_external_api_password st (cfg w))
        \<and> now < token_expires_at (client w) - 60
      \<longrightarrow> get_authorized_client st api str_of now now' w
            = (Inr \<lparr>headers = [(''Authorization'', ''Bearer '' @ s)], timeout = 30\<rparr>, w))
   \<and> (\<not> is_token_valid now (client (invalidate st w))
        \<and> api (login_request_of st (cfg w)) = Response status body (Some (PDict d))
        \<and> is_success status
        \<and> dict_get d ''access_token'' PNone = PStr s \<and> s \<noteq> [] \<and> is_ascii s
        \<and> py_add_time now' (dict_get d ''expires_in'' (PInt 3600)) = Inr expiry
      \<longrightarrow> fst (get_authorized_client st api str_of now now' w)
            = Inr \<lparr>headers = [(''Authorization'', ''Bearer '' @ s)], timeout = 30\<rparr>
          \<and> sent (snd (get_authorized_client st api str_of now now' w))
            = sent w @ [login_request_of st (cfg w)])"
proof -
  have string: "py_format str_of (PStr s) = s"
    by (simp add: py_format_def)
  have passed: "get_authorized_client st api str_of now now' w = (Inl e, w')"
    if "get_access_token st api now now' w = (Inl e, w')"
    using that by (simp add: get_authorized_client_def)
  have only: "timeout c = 30
      \<and> (\<exists>tok'. get_access_token st api now now' w = (Inr tok', w')
            \<and> headers c = [(''Authorization'', ''Bearer '' @ py_format str_of tok')])"
    if "get_authorized_client st api str_of now now' w = (Inr c, w')"
    using that
    by (cases "get_access_token st api now now' w")
      (auto simp: get_authorized_client_def Let_def split: sum.splits if_splits)
  have hit: "get_authorized_client st api str_of now now' w
      = (Inr \<lparr>headers = [(''Authorization'', ''Bearer '' @ s)], timeout = 30\<rparr>, w)"
    if "token (client w) = PStr s" and "s \<noteq> []" and "is_ascii s"
      and "last_base_url (client w) = Some (get_external_api_base_url st (cfg w))"
      and "last_username (client w) = Some (get_external_api_username st (cfg w))"
      and "last_password (client w) = Some (get_external_api_password st (cfg w))"
      and "now < token_expires_at (client w) - 60"
  proof -
    have same: "invalidate st w = w"
      using that(4-6) by (simp add: invalidate_unchanged same_credentials_unchanged)
    have "is_token_valid now (client w)"
      using that(1,2,7) by (simp add: is_token_valid_def)
    then have "get_access_token st api now now' w = (Inr (PStr s), w)"
      using get_access_token_hit [of now st w api now'] by (simp add: same that(1))
    from get_authorized_client_built [OF this] show ?thesis
      using that(3) by (simp add: string)
  qed
  have fresh: "fst (get_authorized_client st api str_of now now' w)
        = Inr \<lparr>headers = [(''Authorization'', ''Bearer '' @ s)], timeout = 30\<rparr>
      \<and> sent (snd (get_authorized_client st api str_of now now' w))
        = sent w @ [login_request_of st (cfg w)]"
    if invalid: "\<not> is_token_valid now (client (invalidate st w))"
      and answer: "api (login_request_of st (cfg w)) = Response status body (Some (PDict d))"
        "is_success status"
      and tok: "dict_get d ''access_token'' PNone = PStr s" "s \<noteq> []" "is_ascii s"
      and expiry: "py_add_time now' (dict_get d ''expires_in'' (PInt 3600)) = Inr expiry"
  proof -
    have "api (login_request_of st (cfg (invalidate st w)))
        = Response status body (Some (PDict d))"
      using answer(1) by simp
    moreover have "py_truthy (dict_get d ''access_token'' PNone)"
      using tok(1,2) by simp
    ultimately have "fetch_new_token st api now' (invalidate st w)
        = (Inr (),
           (invalidate st w)\<lparr>sent := sent (invalidate st w)
                @ [login_request_of st (cfg (invalidate st w))],
             client := \<lparr>token = dict_get d ''access_token'' PNone, token_expires_at = expiry,
               last_base_url = Some (get_external_api_base_url st (cfg (invalidate st w))),
               last_username = Some (get_external_api_username st (cfg (invalidate st w))),
               last_password = Some (get_external_api_password st (cfg (invalidate st w)))\<rparr>\<rparr>)"
      using answer(2) expiry by (intro fetch_success)
    then obtain w2 where got: "get_access_token st api now now' w = (Inr (PStr s), w2)"
      using invalid by (simp add: get_access_token_miss tok(1))
    have "sent (snd (get_authorized_client st api str_of now now' w))
        = sent w @ [login_request_of st (cfg w)]"
      using get_access_token_miss_sent [OF invalid, of api now']
      by (simp add: get_authorized_client_world)
    then show ?thesis
      using get_authorized_client_built [OF got, of str_of] tok(3) by (simp add: string)
  qed
  show ?thesis
    using get_authorized_client_built [of st api now now' w tok w' str_of]
      get_authorized_client_not_ascii [of st api now now' w tok w' str_of]
      get_authorized_client_world [of st api str_of now now' w]
      string passed only hit fresh
    by blast
qed

text \<open>Ten seconds after the first login, the client carries the cached token.\<close>

theorem authorized_client_wrapper_witness:
  "get_authorized_client ex_settings (api_const Transport_Failure) (\<lambda>v. []) 1010 1010 ex_cached
     = (Inr \<lparr>headers = [(''Authorization'', ''Bearer tok'')], timeout = 30\<rparr>, ex_cached)"
proof -
  have held: "token (client ex_cached) = PStr ''tok'' \<and> ''tok'' \<noteq> [] \<and> is_ascii ''tok''
      \<and> last_base_url (client ex_cached)
          = Some (get_external_api_base_url ex_settings (cfg ex_cached))
      \<and> last_username (client ex_cached)
          = Some (get_external_api_username ex_settings (cfg ex_cached))
      \<and> last_password (client ex_cached)
          = Some (get_external_api_password ex_settings (cfg ex_cached))
      \<and> 1010 < token_expires_at (client ex_cached) - 60"
    by (simp add: ex_cached_def ex_settings_credentials is_ascii_def)
  show ?thesis
    using held authorized_client_wrapper [of ex_settings "api_const Transport_Failure" 1010 1010
        ex_cached _ _ "\<lambda>v. []" "''tok''"]
    by simp
qed

section \<open>The empty token\<close>

text \<open>
  C10. Let a login exchange be made. If the 2xx response carries \<open>access_token\<close> with the
  empty string as its value, \<open>get_access_token\<close> raises the very error it raises when the
  field is absent; the worlds the two calls leave differ only in the token field, which
  holds the empty string in one and \<open>None\<close> in the other. The validity check rejects
  every client whose token is the empty string, at every time. And \<open>get_access_token\<close>
  never returns the empty string, in any world, against any API.
\<close>

theorem empty_token_rejected:
  "(\<not> is_token_valid now (client (invalidate st w))
      \<and> api (login_request_of st (cfg w)) = Response status body (Some (PDict d))
      \<and> is_success status \<and> map_of d ''access_token'' = Some (PStr [])
      \<and> api2 (login_request_of st (cfg w)) = Response status2 body2 (Some (PDict d2))
      \<and> is_success status2 \<and> map_of d2 ''access_token'' = None
    \<longrightarrow> fst (get_access_token st api now now' w)
          = Inl (ValueError ''No access_token in response'')
      \<and> fst (get_access_token st api2 now now' w) = fst (get_access_token st api now now' w)
      \<and> snd (get_access_token st api now now' w)
          = (snd (get_access_token st api2 now now' w))
              \<lparr>client := (client (snd (get_access_token st api2 now now' w)))
                 \<lparr>token := PStr []\<rparr>\<rparr>)
   \<and> (token c = PStr [] \<longrightarrow> \<not> is_token_valid t c)
   \<and> fst (get_access_token st api now now' w) \<noteq> Inr (PStr [])"
proof -
  have same_failure: "fst (get_access_token st api now now' w)
          = Inl (ValueError ''No access_token in response'')
      \<and> fst (get_access_token st api2 now now' w) = fst (get_access_token st api now now' w)
      \<and> snd (get_access_token st api now now' w)
          = (snd (get_access_token st api2 now now' w))
              \<lparr>client := (client (snd (get_access_token st api2 now now' w)))
                 \<lparr>token := PStr []\<rparr>\<rparr>"
    if invalid: "\<not> is_token_valid now (client (invalidate st w))"
      and empty: "api (login_request_of st (cfg w)) = Response status body (Some (PDict d))"
        "is_success status" "map_of d ''access_token'' = Some (PStr [])"
      and absent: "api2 (login_request_of st (cfg w)) = Response status2 body2 (Some (PDict d2))"
        "is_success status2" "map_of d2 ''access_token'' = None"
  proof -
    have d: "dict_get d ''access_token'' PNone = PStr []"
      using empty(3) by (simp add: dict_get_def)
    have d2: "dict_get d2 ''access_token'' PNone = PNone"
      using absent(3) by (simp add: dict_get_def)
    have one: "get_access_token st api now now' w
        = (Inl (ValueError ''No access_token in response''),
           (invalidate st w)\<lparr>sent := sent w @ [login_request_of st (cfg w)],
             client := (client (invalidate st w))\<lparr>token := PStr []\<rparr>\<rparr>)"
      using empty(1,2) fetch_no_token [of api st "invalidate st w" status body d now']
      by (simp add: get_access_token_failure [OF invalid] d)
    have two: "get_access_token st api2 now now' w
        = (Inl (ValueError ''No access_token in response''),
           (invalidate st w)\<lparr>sent := sent w @ [login_request_of st (cfg w)],
             client := (client (invalidate st w))\<lparr>token := PNone\<rparr>\<rparr>)"
      using absent(1,2) fetch_no_token [of api2 st "invalidate st w" status2 body2 d2 now']
      by (simp add: get_access_token_failure [OF invalid] d2)
    show ?thesis
      by (simp add: one two)
  qed
  have rejected: "\<not> is_token_valid t c" if "token c = PStr []"
    using that by (simp add: is_token_valid_def)
  have never: "fst (get_access_token st api now now' w) \<noteq> Inr (PStr [])"
    using get_access_token_returns_truthy [of st api now now' w "PStr []"] by auto
  show ?thesis
    using same_failure rejected never by blast
qed

text \<open>The first login of a process, answered with an empty token and with no token.\<close>

theorem empty_token_rejected_witness:
  "fst (get_access_token ex_settings (api_const (ok_body [(''access_token'', PStr [])]))
      1000 1000 world_init) = Inl (ValueError ''No access_token in response'')
   \<and> fst (get_access_token ex_settings (api_const (ok_body [])) 1000 1000 world_init)
      = Inl (ValueError ''No access_token in response'')
   \<and> \<not> is_token_valid 0 (client ((ex_world 5000)\<lparr>client :=
        (client (ex_world 5000))\<lparr>token := PStr []\<rparr>\<rparr>))"
proof -
  have invalid: "\<not> is_token_valid 1000 (client (invalidate ex_settings world_init))"
    by (simp add: invalidate_def credentials_changed_def is_token_valid_def world_init_def
        AuthClient_init_def)
  show ?thesis
    using invalid
      empty_token_rejected [of 1000 ex_settings world_init
        "api_const (ok_body [(''access_token'', PStr [])])" 200 "[]"
        "[(''access_token'', PStr [])]" "api_const (ok_body [])" 200 "[]" "[]" 1000
        "client ((ex_world 5000)\<lparr>client := (client (ex_world 5000))\<lparr>token := PStr []\<rparr>\<rparr>)" 0]
    by (simp add: api_const_def ok_body_def is_success_def)
qed


section \<open>Concurrent callers\<close>

text \<open>The two halves make up \<open>_fetch_new_token\<close>, and one caller running alone does
  what \<open>get_access_token\<close> does.\<close>

lemma fetch_new_token_halves:
  "fetch_new_token st api now w
     = handle_response (api (login_request_of st (cfg w))) now
         (get_external_api_base_url st (cfg w)) (get_external_api_username st (cfg w))
         (get_external_api_password st (cfg w))
         (w\<lparr>sent := sent w @ [login_request_of st (cfg w)]\<rparr>)"
  by (simp add: fetch_new_token_def handle_response_def login_request_of_def Let_def
      split: http_outcome.split option.split pyval.split sum.split)


lemma handle_response_cfg:
  "cfg (snd (handle_response outcome now b u p w)) = cfg w"
  by (simp add: handle_response_def Let_def
      split: http_outcome.split option.split pyval.split sum.split)

lemma caller_step_idle_valid:
  assumes "cs i = Idle" and "is_token_valid now (client (invalidate st w))"
  shows "caller_step st answers (cs, w) (i, now)
      = (cs(i := Finished (Inr (token (client (invalidate st w))))), invalidate st w)"
  using assms by (simp add: caller_step_def Let_def)

lemma caller_step_idle_invalid:
  assumes "cs i = Idle" and "\<not> is_token_valid now (client (invalidate st w))"
  shows "caller_step st answers (cs, w) (i, now)
      = (cs(i := Waiting (get_external_api_base_url st (cfg w))
                   (get_external_api_username st (cfg w))
                   (get_external_api_password st (cfg w))),
         (invalidate st w)\<lparr>sent := sent w @ [login_request_of st (cfg w)]\<rparr>)"
  using assms by (simp add: caller_step_def Let_def)

lemma caller_step_waiting:
  assumes "cs i = Waiting b u p"
  shows "caller_step st answers (cs, w) (i, now)
      = (cs(i := Finished (case fst (handle_response (answers i) now b u p w) of
                      Inl e \<Rightarrow> Inl e
                    | Inr x \<Rightarrow> Inr (token (client (snd (handle_response (answers i) now b u p w)))))),
         snd (handle_response (answers i) now b u p w))"
  using assms
  by (cases "handle_response (answers i) now b u p w")
    (auto simp: caller_step_def Let_def split: sum.splits)

lemma caller_step_finished:
  assumes "cs i = Finished r"
  shows "caller_step st answers (cs, w) (i, now) = (cs, w)"
  using assms by (simp add: caller_step_def Let_def)


lemma run_callers_Nil: "run_callers st answers [] s = s"
  by (simp add: run_callers_def)

lemma run_callers_Cons:
  "run_callers st answers (ev # evs) s = run_callers st answers evs (caller_step st answers s ev)"
  by (simp add: run_callers_def)

lemma single_caller_is_get_access_token:
  assumes "cs i = Idle"
  shows "run_callers st answers [(i, now), (i, now')] (cs, w)
      = (cs(i := Finished (fst (get_access_token st (\<lambda>req. answers i) now now' w))),
         snd (get_access_token st (\<lambda>req. answers i) now now' w))"
proof (cases "is_token_valid now (client (invalidate st w))")
  case True
  then show ?thesis
    using assms
    by (simp add: run_callers_Cons run_callers_Nil caller_step_idle_valid
        caller_step_finished get_access_token_hit)
next
  case False
  let ?b = "get_external_api_base_url st (cfg w)"
  let ?u = "get_external_api_username st (cfg w)"
  let ?p = "get_external_api_password st (cfg w)"
  let ?w1 = "(invalidate st w)\<lparr>sent := sent w @ [login_request_of st (cfg w)]\<rparr>"
  have halves: "fetch_new_token st (\<lambda>req. answers i) now' (invalidate st w)
      = handle_response (answers i) now' ?b ?u ?p ?w1"
    by (simp add: fetch_new_token_halves)
  have "run_callers st answers [(i, now), (i, now')] (cs, w)
      = caller_step st answers (cs(i := Waiting ?b ?u ?p), ?w1) (i, now')"
    using assms False
    by (simp add: run_callers_Cons run_callers_Nil caller_step_idle_invalid)
  also have "\<dots> = (cs(i := Finished (case fst (handle_response (answers i) now' ?b ?u ?p ?w1) of
                      Inl e \<Rightarrow> Inl e
                    | Inr x \<Rightarrow> Inr (token (client (snd (handle_response (answers i) now' ?b ?u ?p ?w1)))))),
         snd (handle_response (answers i) now' ?b ?u ?p ?w1))"
    by (simp add: caller_step_waiting [where b = ?b and u = ?u and p = ?p])
  finally show ?thesis
    using False
    by (cases "handle_response (answers i) now' ?b ?u ?p ?w1")
      (auto simp: get_access_token_miss halves split: sum.splits)
qed







end
